theory Spec2Isabelle
  imports Complex_Main
begin

section \<open>JavaScript Map\<close>

text \<open>
  \<^verbatim>\<open>Map<string, V>\<close> keeps its entries in insertion order, and \<^verbatim>\<open>set\<close> on a key
  that is present replaces the value where the key already stands. The model is an
  association list in iteration order.
\<close>

type_synonym 'v jsmap = "(string \<times> 'v) list"

definition jsmap_get :: "'v jsmap \<Rightarrow> string \<Rightarrow> 'v option" where
  "jsmap_get m k = map_of m k"

fun jsmap_set :: "string \<Rightarrow> 'v \<Rightarrow> 'v jsmap \<Rightarrow> 'v jsmap" where
  "jsmap_set k v [] = [(k, v)]"
| "jsmap_set k v ((a, b) # ps) = (if a = k then (k, v) # ps else (a, b) # jsmap_set k v ps)"

definition jsmap_has :: "'v jsmap \<Rightarrow> string \<Rightarrow> bool" where
  "jsmap_has m k = (k \<in> set (map fst m))"

definition jsmap_delete :: "string \<Rightarrow> 'v jsmap \<Rightarrow> 'v jsmap" where
  "jsmap_delete k m = filter (\<lambda>p. fst p \<noteq> k) m"

definition jsmap_values :: "'v jsmap \<Rightarrow> 'v list" where
  "jsmap_values m = map snd m"

section \<open>shared/schema: the records of the store\<close>

text \<open>A \<^verbatim>\<open>Date\<close> is its number of milliseconds.\<close>

type_synonym date = nat

record video =
  v_id :: string
  v_filename :: string
  v_originalName :: string
  v_size :: int
  v_duration :: "int option"
  v_status :: string
  v_createdAt :: "date option"

record streaming_session =
  s_id :: string
  s_status :: string
  s_currentVideoId :: "string option"
  s_facebookPageId :: "string option"
  s_streamTitle :: "string option"
  s_streamDescription :: "string option"
  s_startTime :: "date option"
  s_endTime :: "date option"
  s_createdAt :: "date option"

record streaming_queue =
  q_id :: string
  q_videoId :: string
  q_position :: int
  q_sessionId :: "string option"
  q_createdAt :: "date option"

record stream_configuration =
  cfg_id :: string
  cfg_quality :: string
  cfg_bitrate :: string
  cfg_autoQueue :: "bool option"
  cfg_notifications :: "bool option"
  cfg_updatedAt :: "date option"

record facebook_credentials =
  c_id :: string
  c_accessToken :: string
  c_pageId :: string
  c_pageName :: string
  c_isActive :: "bool option"
  c_createdAt :: "date option"


record insert_streaming_session =
  is_status :: "string option"
  is_currentVideoId :: "string option"
  is_facebookPageId :: "string option"
  is_streamTitle :: "string option"
  is_streamDescription :: "string option"
  is_startTime :: "date option"
  is_endTime :: "date option"

section \<open>server/storage.ts: MemStorage\<close>

record mem_storage =
  videos :: "video jsmap"
  sessions :: "streaming_session jsmap"
  queue :: "streaming_queue jsmap"
  configuration :: "stream_configuration option"
  credentials :: "facebook_credentials jsmap"

text \<open>\<^verbatim>\<open>randomUUID()\<close> and \<^verbatim>\<open>new Date()\<close> are inputs of the operations that call
  them: \<open>uid\<close> and \<open>now\<close>.\<close>

definition getVideo :: "string \<Rightarrow> mem_storage \<Rightarrow> video option" where
  "getVideo ident st = jsmap_get (videos st) ident"

definition deleteVideo :: "string \<Rightarrow> mem_storage \<Rightarrow> bool \<times> mem_storage" where
  "deleteVideo ident st =
     (jsmap_has (videos st) ident, st\<lparr>videos := jsmap_delete ident (videos st)\<rparr>)"

definition getCurrentSession :: "mem_storage \<Rightarrow> streaming_session option" where
  "getCurrentSession st =
     List.find (\<lambda>s. s_status s = ''streaming'') (jsmap_values (sessions st))"

definition createSession ::
  "string \<Rightarrow> date \<Rightarrow> insert_streaming_session \<Rightarrow> mem_storage \<Rightarrow> streaming_session \<times> mem_storage"
where
  "createSession uid now insertSession st =
     (let session = \<lparr>s_id = uid,
                     s_status = (case is_status insertSession of Some x \<Rightarrow> x | None \<Rightarrow> ''idle''),
                     s_currentVideoId = is_currentVideoId insertSession,
                     s_facebookPageId = is_facebookPageId insertSession,
                     s_streamTitle = is_streamTitle insertSession,
                     s_streamDescription = is_streamDescription insertSession,
                     s_startTime = is_startTime insertSession,
                     s_endTime = is_endTime insertSession,
                     s_createdAt = Some now\<rparr>
      in (session, st\<lparr>sessions := jsmap_set uid session (sessions st)\<rparr>))"

text \<open>\<^verbatim>\<open>updateSession\<close> merges a partial session into the stored one; the two partial
  sessions the routes pass are a function on the record here.\<close>

definition updateSession ::
  "string \<Rightarrow> (streaming_session \<Rightarrow> streaming_session) \<Rightarrow> mem_storage
     \<Rightarrow> streaming_session option \<times> mem_storage"
where
  "updateSession ident updates st =
     (case jsmap_get (sessions st) ident of
        Some session \<Rightarrow>
          (let updated = updates session
           in (Some updated, st\<lparr>sessions := jsmap_set ident updated (sessions st)\<rparr>))
      | None \<Rightarrow> (None, st))"

text \<open>\<^verbatim>\<open>getQueue\<close>: \<^verbatim>\<open>Array.prototype.sort\<close> is stable, as \<^const>\<open>sort_key\<close> is; the
  loop keeps the items whose video the catalog still has.\<close>

fun attach_videos :: "video jsmap \<Rightarrow> streaming_queue list \<Rightarrow> (streaming_queue \<times> video) list" where
  "attach_videos vs [] = []"
| "attach_videos vs (item # rest) =
     (case jsmap_get vs (q_videoId item) of
        Some video \<Rightarrow> (item, video) # attach_videos vs rest
      | None \<Rightarrow> attach_videos vs rest)"

definition getQueue :: "mem_storage \<Rightarrow> (streaming_queue \<times> video) list" where
  "getQueue st =
     (let queueItems = sort_key q_position (jsmap_values (queue st))
      in attach_videos (videos st) queueItems)"


definition removeFromQueue :: "string \<Rightarrow> mem_storage \<Rightarrow> bool \<times> mem_storage" where
  "removeFromQueue ident st =
     (jsmap_has (queue st) ident, st\<lparr>queue := jsmap_delete ident (queue st)\<rparr>)"

definition clearQueue :: "mem_storage \<Rightarrow> bool \<times> mem_storage" where
  "clearQueue st = (True, st\<lparr>queue := []\<rparr>)"



definition getConfiguration :: "string \<Rightarrow> date \<Rightarrow> mem_storage \<Rightarrow> stream_configuration \<times> mem_storage" where
  "getConfiguration uid now st =
     (case configuration st of
        Some c \<Rightarrow> (c, st)
      | None \<Rightarrow>
          (let c = \<lparr>cfg_id = uid, cfg_quality = ''1080p'', cfg_bitrate = ''4000'',
                    cfg_autoQueue = Some True, cfg_notifications = Some True,
                    cfg_updatedAt = Some now\<rparr>
           in (c, st\<lparr>configuration := Some c\<rparr>)))"

definition getFacebookCredentials :: "mem_storage \<Rightarrow> facebook_credentials list" where
  "getFacebookCredentials st = jsmap_values (credentials st)"

section \<open>server/services/ffmpeg.ts: FFmpegService\<close>

subsection \<open>The child process\<close>

text \<open>
  What the service reads and calls on a Node \<^verbatim>\<open>ChildProcess\<close>: the \<^verbatim>\<open>killed\<close> flag
  and \<^verbatim>\<open>kill(signal)\<close>. In Node, \<^verbatim>\<open>kill\<close> sends the signal when the operating-system
  process still exists, then sets \<^verbatim>\<open>killed\<close> to true and returns true; when the process
  is gone it returns false and changes nothing. So \<^verbatim>\<open>killed\<close> says that a signal was
  delivered by \<^verbatim>\<open>kill\<close>, not that the process has ended. The argument list of the
  spawn is a function of the input path and the options, which the record keeps.
\<close>

datatype signal = SIGTERM | SIGKILL

record streaming_options =
  inputFile :: string
  rtmpUrl :: string
  quality :: string
  bitrate :: string

record child_process =
  cp_command :: string
  cp_inputPath :: string
  cp_options :: streaming_options
  killed :: bool
  cp_running :: bool

definition spawn :: "string \<Rightarrow> string \<Rightarrow> streaming_options \<Rightarrow> child_process" where
  "spawn command inputPath options =
     \<lparr>cp_command = command, cp_inputPath = inputPath, cp_options = options,
      killed = False, cp_running = True\<rparr>"

definition cp_kill :: "child_process \<Rightarrow> bool \<times> child_process" where
  "cp_kill p = (if cp_running p then (True, p\<lparr>killed := True\<rparr>) else (False, p))"

text \<open>What the process emits: \<^verbatim>\<open>close\<close> with its exit code (none when a signal ended
  it), or \<^verbatim>\<open>error\<close>. An event comes with its time in milliseconds after the spawn.\<close>

datatype proc_event = ProcClose "int option" | ProcError string

text \<open>The fate of a promise: never settled, or settled at a time (milliseconds after the
  call) with a value.\<close>

datatype 'a promise = Pending | Settled nat 'a

datatype stream_error = AlreadyRunning | InputNotFound string | ProcessError string | LaunchFailed

subsection \<open>The service\<close>

text \<open>The three fields of the class, and two traces of what it did to the outside: the
  processes it spawned and the signals its \<^verbatim>\<open>kill\<close> calls delivered.\<close>

record ffmpeg_service =
  streamingProcess :: "child_process option"
  isStreaming :: bool
  currentStreamInfo :: "streaming_options option"
  spawn_log :: "child_process list"
  signal_log :: "signal list"

text \<open>The \<^verbatim>\<open>close\<close> and \<^verbatim>\<open>error\<close> listeners that \<^verbatim>\<open>startStream\<close> registers change the
  fields alike; the \<^verbatim>\<open>error\<close> listener rejects the promise too.\<close>

definition onClose :: "ffmpeg_service \<Rightarrow> ffmpeg_service" where
  "onClose svc = svc\<lparr>isStreaming := False, streamingProcess := None\<rparr>"

fun onEvent :: "proc_event \<Rightarrow> ffmpeg_service \<Rightarrow> ffmpeg_service" where
  "onEvent (ProcClose code) svc = onClose svc"
| "onEvent (ProcError e) svc = svc\<lparr>isStreaming := False, streamingProcess := None\<rparr>"

fun firstError :: "(nat \<times> proc_event) list \<Rightarrow> (nat \<times> string) option" where
  "firstError [] = None"
| "firstError ((t, ProcError e) # evs) = Some (t, e)"
| "firstError ((t, ProcClose code) # evs) = firstError evs"

text \<open>
  \<^verbatim>\<open>startStream(options)\<close>. \<open>existsSync\<close> is the file system's answer; \<open>events\<close> are
  the events of the spawned process in the order they occur, of which those before the
  2000 ms timer run their listeners first; then the timer's callback runs. The promise is
  settled by whichever of the \<^verbatim>\<open>error\<close> listener and the timer comes first.
\<close>

definition startStream ::
  "streaming_options \<Rightarrow> (string \<Rightarrow> bool) \<Rightarrow> (nat \<times> proc_event) list \<Rightarrow> ffmpeg_service
     \<Rightarrow> (stream_error + bool) promise \<times> ffmpeg_service"
where
  "startStream options existsSync events svc =
     (if isStreaming svc then (Settled 0 (Inl AlreadyRunning), svc)
      else
        let inputPath = ''uploads/'' @ inputFile options in
        if \<not> existsSync inputPath then (Settled 0 (Inl (InputNotFound (inputFile options))), svc)
        else
          let p = spawn ''ffmpeg'' inputPath options;
              svc1 = svc\<lparr>streamingProcess := Some p, spawn_log := spawn_log svc @ [p]\<rparr>;
              window = filter (\<lambda>te. fst te < 2000) events;
              svc2 = fold onEvent (map snd window) svc1;
              (timer, svc3) =
                (case streamingProcess svc2 of
                   Some q \<Rightarrow>
                     if \<not> killed q
                     then (Inr True, svc2\<lparr>isStreaming := True, currentStreamInfo := Some options\<rparr>)
                     else (Inl LaunchFailed, svc2)
                 | None \<Rightarrow> (Inl LaunchFailed, svc2))
          in (case firstError window of
                Some (t, e) \<Rightarrow> (Settled t (Inl (ProcessError e)), svc3)
              | None \<Rightarrow> (Settled 2000 timer, svc3)))"

text \<open>
  The part of \<^verbatim>\<open>startStream\<close> that runs at the call, before any event and before the
  timer: the two checks and the spawn. \<open>None\<close>: nothing was thrown, and the promise is
  pending. Between this part and the timer of a call, other calls can run.
\<close>

definition startStream_call ::
  "streaming_options \<Rightarrow> (string \<Rightarrow> bool) \<Rightarrow> ffmpeg_service \<Rightarrow> stream_error option \<times> ffmpeg_service"
where
  "startStream_call options existsSync svc =
     (if isStreaming svc then (Some AlreadyRunning, svc)
      else
        let inputPath = ''uploads/'' @ inputFile options in
        if \<not> existsSync inputPath then (Some (InputNotFound (inputFile options)), svc)
        else
          let p = spawn ''ffmpeg'' inputPath options
          in (None, svc\<lparr>streamingProcess := Some p, spawn_log := spawn_log svc @ [p]\<rparr>))"

text \<open>An exit of the process at a later time runs the \<^verbatim>\<open>close\<close> listener of
  \<^verbatim>\<open>startStream\<close>, and nothing else.\<close>

definition processExit :: "ffmpeg_service \<Rightarrow> ffmpeg_service" where
  "processExit svc = (case streamingProcess svc of None \<Rightarrow> svc | Some p \<Rightarrow> onClose svc)"

text \<open>\<^verbatim>\<open>this.streamingProcess.kill(sig)\<close>, with the delivered signal written to the trace.\<close>

definition kill_streamingProcess :: "signal \<Rightarrow> ffmpeg_service \<Rightarrow> ffmpeg_service" where
  "kill_streamingProcess sig svc =
     (case streamingProcess svc of
        None \<Rightarrow> svc
      | Some p \<Rightarrow>
          (let (delivered, p') = cp_kill p
           in svc\<lparr>streamingProcess := Some p',
                  signal_log := (if delivered then signal_log svc @ [sig] else signal_log svc)\<rparr>))"

text \<open>The \<^verbatim>\<open>close\<close> listener of \<^verbatim>\<open>stopStream\<close>, after the one of \<^verbatim>\<open>startStream\<close>.\<close>

definition onStopClose :: "ffmpeg_service \<Rightarrow> ffmpeg_service" where
  "onStopClose svc = (onClose svc)\<lparr>isStreaming := False, streamingProcess := None, currentStreamInfo := None\<rparr>"

text \<open>The callback of the 5000 ms timer that \<^verbatim>\<open>stopStream\<close> arms.\<close>

definition escalationTimer :: "ffmpeg_service \<Rightarrow> ffmpeg_service" where
  "escalationTimer svc =
     (case streamingProcess svc of
        Some q \<Rightarrow> if \<not> killed q then kill_streamingProcess SIGKILL svc else svc
      | None \<Rightarrow> svc)"

text \<open>
  \<^verbatim>\<open>stopStream()\<close>. \<open>closeAfter\<close> is the process's answer to a graceful stop: the time
  in milliseconds after the call at which its \<^verbatim>\<open>close\<close> is emitted when no further
  signal reaches it, \<open>None\<close> when it never ends by itself. A delivered SIGKILL ends
  every process at once. The timer's callback runs at 5000 ms when the process has not
  closed before. A promise that stays pending is not followed further.
\<close>

definition stopStream :: "nat option \<Rightarrow> ffmpeg_service \<Rightarrow> bool promise \<times> ffmpeg_service" where
  "stopStream closeAfter svc =
     (if \<not> isStreaming svc \<or> streamingProcess svc = None then (Settled 0 False, svc)
      else
        let svc1 = kill_streamingProcess SIGTERM svc in
        if (case closeAfter of Some d \<Rightarrow> d < 5000 | None \<Rightarrow> False)
        then (Settled (the closeAfter) True, onStopClose svc1)
        else
          let svc2 = escalationTimer svc1 in
          if signal_log svc2 = signal_log svc1 @ [SIGKILL]
          then (Settled 5000 True, onStopClose svc2)
          else (case closeAfter of
                  Some d \<Rightarrow> (Settled d True, onStopClose svc2)
                | None \<Rightarrow> (Pending, svc2)))"

definition getStreamingStatus :: "ffmpeg_service \<Rightarrow> bool" where
  "getStreamingStatus svc = isStreaming svc"

definition isProcessAlive :: "ffmpeg_service \<Rightarrow> bool" where
  "isProcessAlive svc = (case streamingProcess svc of None \<Rightarrow> False | Some p \<Rightarrow> \<not> killed p)"

subsection \<open>getVideoInfo\<close>

text \<open>
  The value \<^verbatim>\<open>JSON.parse\<close> returns, and the numbers \<^verbatim>\<open>parseFloat\<close>, \<^verbatim>\<open>parseInt\<close> and
  \<^verbatim>\<open>Math.floor\<close> return: a finite double is the rational it denotes. The three
  built-ins \<^verbatim>\<open>JSON.parse\<close>, \<^verbatim>\<open>parseFloat\<close> and \<^verbatim>\<open>parseInt\<close> are parameters of the model.
\<close>

datatype json =
  JNull | JBool bool | JNumber rat | JString string | JArray "json list"
  | JObject "(string \<times> json) list"

datatype jsval = Undefined | Value json

datatype jsnum = NaN | PosInfinity | NegInfinity | Num rat

fun Math_floor :: "jsnum \<Rightarrow> jsnum" where
  "Math_floor (Num r) = Num (of_int \<lfloor>r\<rfloor>)"
| "Math_floor x = x"

text \<open>Reading a member \<^verbatim>\<open>v.name\<close>, for the names \<^verbatim>\<open>format\<close>, \<^verbatim>\<open>duration\<close> and
  \<^verbatim>\<open>size\<close>, which no prototype defines: a TypeError (\<open>None\<close>) on \<^verbatim>\<open>undefined\<close> and
  \<^verbatim>\<open>null\<close>, the member of an object when it has one, \<^verbatim>\<open>undefined\<close> otherwise.\<close>

fun get_member :: "jsval \<Rightarrow> string \<Rightarrow> jsval option" where
  "get_member Undefined name = None"
| "get_member (Value JNull) name = None"
| "get_member (Value (JObject kvs)) name =
     Some (case map_of kvs name of Some v \<Rightarrow> Value v | None \<Rightarrow> Undefined)"
| "get_member (Value v) name = Some Undefined"

datatype probe_error = ParseFailed | FFprobeFailed | ProbeSpawnError string

datatype probe_event = ProbeClose "int option" | ProbeError string

record video_info =
  vi_duration :: jsnum
  vi_size :: jsnum

text \<open>\<open>output\<close> is what ffprobe wrote to its standard output; \<open>ev\<close> is the event that
  settles the promise.\<close>

definition getVideoInfo ::
  "(string \<Rightarrow> json option) \<Rightarrow> (jsval \<Rightarrow> jsnum) \<Rightarrow> (jsval \<Rightarrow> jsnum) \<Rightarrow> string \<Rightarrow> probe_event
     \<Rightarrow> probe_error + video_info"
where
  "getVideoInfo JSON_parse parseFloat parseInt output ev =
     (case ev of
        ProbeError e \<Rightarrow> Inl (ProbeSpawnError e)
      | ProbeClose code \<Rightarrow>
          if code = Some 0 then
            (case JSON_parse output of
               None \<Rightarrow> Inl ParseFailed
             | Some info \<Rightarrow>
                 (case get_member (Value info) ''format'' of
                    None \<Rightarrow> Inl ParseFailed
                  | Some fmt \<Rightarrow>
                      (case get_member fmt ''duration'' of
                         None \<Rightarrow> Inl ParseFailed
                       | Some d \<Rightarrow>
                           (let duration = Math_floor (parseFloat d) in
                            case get_member fmt ''size'' of
                              None \<Rightarrow> Inl ParseFailed
                            | Some sz \<Rightarrow>
                                Inr \<lparr>vi_duration = duration, vi_size = parseInt sz\<rparr>))))
          else Inl FFprobeFailed)"

section \<open>server/services/facebook.ts and server/routes.ts\<close>

text \<open>The calls that reach the Graph API, as a trace. No route calls
  \<^verbatim>\<open>endLiveVideo\<close>; the trace has a constructor for it all the same.\<close>

record live_video_response =
  lv_id :: string
  lv_stream_url :: string

datatype facebook_call =
  CreateLiveVideo string string "string option" "string option"
  | EndLiveVideo string string

datatype ws_message =
  QueueUpdated "(streaming_queue \<times> video) list"
  | StreamStarted streaming_session video
  | StreamStopped string

datatype payload =
  QueueItemJson streaming_queue
  | QueueJson "(streaming_queue \<times> video) list"
  | SuccessJson
  | SuccessSessionJson streaming_session
  | StatusJson bool "streaming_session option"

datatype response = Json payload | Error nat string

record server =
  storage :: mem_storage
  ffmpegService :: ffmpeg_service
  broadcasts :: "ws_message list"
  facebook_log :: "facebook_call list"

subsection \<open>The queue routes\<close>







definition get_queue :: "server \<Rightarrow> response" where
  "get_queue srv = Json (QueueJson (getQueue (storage srv)))"


subsection \<open>The streaming routes\<close>

record start_body =
  r_videoId :: "string option"
  r_facebookPageId :: "string option"
  r_streamTitle :: "string option"
  r_streamDescription :: "string option"

text \<open>What the outside answers during one \<^verbatim>\<open>POST /api/stream/start\<close>: the Graph API's
  answer to \<^verbatim>\<open>createLiveVideo\<close> (\<open>None\<close> when the call throws), the file system, the
  events of the spawned process, two fresh identifiers and the clock.\<close>

record start_env =
  e_liveVideo :: "live_video_response option"
  e_existsSync :: "string \<Rightarrow> bool"
  e_events :: "(nat \<times> proc_event) list"
  e_configUid :: string
  e_sessionUid :: string
  e_now :: date

definition stream_start :: "start_body \<Rightarrow> start_env \<Rightarrow> server \<Rightarrow> response \<times> server" where
  "stream_start body env srv =
     (case (case r_videoId body of None \<Rightarrow> None | Some vid \<Rightarrow> getVideo vid (storage srv)) of
        None \<Rightarrow> (Error 404 ''Video not found'', srv)
      | Some video \<Rightarrow>
          (case List.find (\<lambda>c. Some (c_pageId c) = r_facebookPageId body)
                  (getFacebookCredentials (storage srv)) of
             None \<Rightarrow> (Error 400 ''Facebook credentials not found'', srv)
           | Some pageCredential \<Rightarrow>
               (let srv1 = srv\<lparr>facebook_log := facebook_log srv @
                              [CreateLiveVideo (c_pageId pageCredential) (c_accessToken pageCredential)
                                 (r_streamTitle body) (r_streamDescription body)]\<rparr>
                in case e_liveVideo env of
                     None \<Rightarrow> (Error 500 ''Failed to start stream'', srv1)
                   | Some liveVideo \<Rightarrow>
                       (let (config, st2) = getConfiguration (e_configUid env) (e_now env) (storage srv1);
                            (started, svc') =
                               startStream
                                 \<lparr>inputFile = v_filename video,
                                  rtmpUrl = lv_stream_url liveVideo,
                                  quality = (if cfg_quality config = [] then ''1080p'' else cfg_quality config),
                                  bitrate = (if cfg_bitrate config = [] then ''4000'' else cfg_bitrate config)\<rparr>
                                 (e_existsSync env) (e_events env) (ffmpegService srv1);
                            srv2 = srv1\<lparr>storage := st2, ffmpegService := svc'\<rparr>
                        in case started of
                             Settled t (Inr ok) \<Rightarrow>
                               (let (session, st3) =
                                      createSession (e_sessionUid env) (e_now env)
                                        \<lparr>is_status = Some ''streaming'',
                                         is_currentVideoId = r_videoId body,
                                         is_facebookPageId = r_facebookPageId body,
                                         is_streamTitle = r_streamTitle body,
                                         is_streamDescription = r_streamDescription body,
                                         is_startTime = Some (e_now env),
                                         is_endTime = None\<rparr> (storage srv2)
                                in (Json (SuccessSessionJson session),
                                    srv2\<lparr>storage := st3,
                                         broadcasts := broadcasts srv2 @ [StreamStarted session video]\<rparr>))
                           | _ \<Rightarrow> (Error 500 ''Failed to start stream'', srv2)))))"

text \<open>\<^verbatim>\<open>POST /api/stream/stop\<close>; no response (\<open>None\<close>) while \<^verbatim>\<open>stopStream\<close> is pending.\<close>

definition stream_stop :: "nat option \<Rightarrow> date \<Rightarrow> server \<Rightarrow> response option \<times> server" where
  "stream_stop closeAfter now srv =
     (case getCurrentSession (storage srv) of
        None \<Rightarrow> (Some (Error 400 ''No active stream found''), srv)
      | Some currentSession \<Rightarrow>
          (let (stopped, svc') = stopStream closeAfter (ffmpegService srv);
               srv1 = srv\<lparr>ffmpegService := svc'\<rparr>
           in case stopped of
                Pending \<Rightarrow> (None, srv1)
              | Settled t b \<Rightarrow>
                  (let (u, st') =
                         updateSession (s_id currentSession)
                           (\<lambda>s. s\<lparr>s_status := ''stopped'', s_endTime := Some now\<rparr>) (storage srv1)
                   in (Some (Json SuccessJson),
                       srv1\<lparr>storage := st',
                            broadcasts := broadcasts srv1 @ [StreamStopped (s_id currentSession)]\<rparr>))))"

definition stream_status :: "server \<Rightarrow> response" where
  "stream_status srv =
     Json (StatusJson (getStreamingStatus (ffmpegService srv)) (getCurrentSession (storage srv)))"

text \<open>The streaming process ends by itself: only the service's listener runs.\<close>

definition process_exit :: "server \<Rightarrow> server" where
  "process_exit srv = srv\<lparr>ffmpegService := processExit (ffmpegService srv)\<rparr>"

subsection \<open>Sequences of requests and exits\<close>

text \<open>
  A sequence of requests that are served one after another: each request runs to its
  answer (or to a promise that stays pending) before the next one arrives. The routes
  await the 2000 ms timer of a launch and the close of the process, and a request that
  arrives meanwhile is not a step of this model; what a launch does to a service that is
  inside the window of another launch is \<open>startStream\<close> at such a service.
\<close>

datatype event =
  RequestStart start_body start_env
  | RequestStop "nat option" date
  | ProcessExit

fun step :: "event \<Rightarrow> server \<Rightarrow> server" where
  "step (RequestStart body env) srv = snd (stream_start body env srv)"
| "step (RequestStop closeAfter now) srv = snd (stream_stop closeAfter now srv)"
| "step ProcessExit srv = process_exit srv"

definition run :: "event list \<Rightarrow> server \<Rightarrow> server" where
  "run evs srv = fold step evs srv"

definition streaming_sessions :: "server \<Rightarrow> streaming_session list" where
  "streaming_sessions srv =
     filter (\<lambda>s. s_status s = ''streaming'') (jsmap_values (sessions (storage srv)))"

text \<open>The sessions are stored under their own identifiers.\<close>

definition sessions_keyed :: "mem_storage \<Rightarrow> bool" where
  "sessions_keyed st =
     (distinct (map fst (sessions st)) \<and> list_all (\<lambda>p. s_id (snd p) = fst p) (sessions st))"

text \<open>
  The state in which the service and the store agree: the sessions are stored under
  their identifiers, a service that streams has its process and at most one session has
  status \<^verbatim>\<open>streaming\<close>, and a service that does not stream has no such session.
\<close>

definition single_flight :: "server \<Rightarrow> bool" where
  "single_flight srv =
     (sessions_keyed (storage srv)
      \<and> (isStreaming (ffmpegService srv) \<longrightarrow>
            streamingProcess (ffmpegService srv) \<noteq> None \<and> length (streaming_sessions srv) \<le> 1)
      \<and> (\<not> isStreaming (ffmpegService srv) \<longrightarrow> streaming_sessions srv = []))"

text \<open>A sequence of requests in which no process ends by itself and every start draws an
  identifier that no session has yet, as \<^verbatim>\<open>randomUUID\<close> does.\<close>

fun admissible :: "event \<Rightarrow> server \<Rightarrow> bool" where
  "admissible (RequestStart body env) srv = (\<not> jsmap_has (sessions (storage srv)) (e_sessionUid env))"
| "admissible (RequestStop closeAfter now) srv = True"
| "admissible ProcessExit srv = False"

fun exit_free :: "event list \<Rightarrow> server \<Rightarrow> bool" where
  "exit_free [] srv = True"
| "exit_free (ev # evs) srv = (admissible ev srv \<and> exit_free evs (step ev srv))"

section \<open>Concrete stores and requests\<close>

definition video_a :: video where
  "video_a = \<lparr>v_id = ''v1'', v_filename = ''a.mp4'', v_originalName = ''A.mp4'', v_size = 1000,
              v_duration = Some 10, v_status = ''ready'', v_createdAt = Some 0\<rparr>"

definition video_b :: video where
  "video_b = \<lparr>v_id = ''v2'', v_filename = ''b.mp4'', v_originalName = ''B.mp4'', v_size = 2000,
              v_duration = Some 20, v_status = ''ready'', v_createdAt = Some 0\<rparr>"

definition entry_a :: streaming_queue where
  "entry_a = \<lparr>q_id = ''q1'', q_videoId = ''v1'', q_position = 0, q_sessionId = None,
              q_createdAt = Some 1\<rparr>"

definition entry_b :: streaming_queue where
  "entry_b = \<lparr>q_id = ''q2'', q_videoId = ''v2'', q_position = 1, q_sessionId = None,
              q_createdAt = Some 2\<rparr>"

definition page_credential :: facebook_credentials where
  "page_credential = \<lparr>c_id = ''c1'', c_accessToken = ''token'', c_pageId = ''page1'',
                      c_pageName = ''Page'', c_isActive = Some True, c_createdAt = Some 0\<rparr>"

definition example_storage :: mem_storage where
  "example_storage =
     \<lparr>videos = [(''v1'', video_a), (''v2'', video_b)],
      sessions = [],
      queue = [(''q1'', entry_a), (''q2'', entry_b)],
      configuration = None,
      credentials = [(''c1'', page_credential)]\<rparr>"

definition idle_service :: ffmpeg_service where
  "idle_service = \<lparr>streamingProcess = None, isStreaming = False, currentStreamInfo = None,
                   spawn_log = [], signal_log = []\<rparr>"

definition example_server :: server where
  "example_server = \<lparr>storage = example_storage, ffmpegService = idle_service,
                     broadcasts = [], facebook_log = []\<rparr>"

definition start_a :: start_body where
  "start_a = \<lparr>r_videoId = Some ''v1'', r_facebookPageId = Some ''page1'',
              r_streamTitle = Some ''Live'', r_streamDescription = None\<rparr>"

definition healthy_env :: "string \<Rightarrow> date \<Rightarrow> start_env" where
  "healthy_env uid now =
     \<lparr>e_liveVideo = Some \<lparr>lv_id = ''lv1'', lv_stream_url = ''rtmp://x''\<rparr>,
      e_existsSync = (\<lambda>path. True),
      e_events = [],
      e_configUid = ''cfg'',
      e_sessionUid = uid,
      e_now = now\<rparr>"





definition example_options :: streaming_options where
  "example_options = \<lparr>inputFile = ''a.mp4'', rtmpUrl = ''rtmp://x'', quality = ''1080p'',
                      bitrate = ''4000''\<rparr>"

text \<open>The service inside the window of a launch of \<^verbatim>\<open>a.mp4\<close>: the process is
  spawned, the timer has not run.\<close>

definition launching_service :: ffmpeg_service where
  "launching_service = snd (startStream_call example_options (\<lambda>path. True) idle_service)"

text \<open>The service while it streams \<^verbatim>\<open>a.mp4\<close>.\<close>

definition streaming_service :: ffmpeg_service where
  "streaming_service =
     \<lparr>streamingProcess = Some (spawn ''ffmpeg'' ''uploads/a.mp4'' example_options),
      isStreaming = True,
      currentStreamInfo = Some example_options,
      spawn_log = [spawn ''ffmpeg'' ''uploads/a.mp4'' example_options],
      signal_log = []\<rparr>"

definition session_1 :: streaming_session where
  "session_1 = \<lparr>s_id = ''s1'', s_status = ''streaming'', s_currentVideoId = Some ''v1'',
                s_facebookPageId = Some ''page1'', s_streamTitle = Some ''Live'',
                s_streamDescription = None, s_startTime = Some 1000, s_endTime = None,
                s_createdAt = Some 1000\<rparr>"

definition session_2 :: streaming_session where
  "session_2 = \<lparr>s_id = ''s2'', s_status = ''streaming'', s_currentVideoId = Some ''v1'',
                s_facebookPageId = Some ''page1'', s_streamTitle = Some ''Live'',
                s_streamDescription = None, s_startTime = Some 2000, s_endTime = None,
                s_createdAt = Some 2000\<rparr>"

definition default_configuration :: stream_configuration where
  "default_configuration =
     \<lparr>cfg_id = ''cfg'', cfg_quality = ''1080p'', cfg_bitrate = ''4000'',
      cfg_autoQueue = Some True, cfg_notifications = Some True, cfg_updatedAt = Some 1000\<rparr>"

text \<open>The server after one successful start, and after a start, an exit of the process by
  itself and a second start.\<close>

definition live_server :: server where
  "live_server = snd (stream_start start_a (healthy_env ''s1'' 1000) example_server)"

definition two_live_server :: server where
  "two_live_server =
     run [RequestStart start_a (healthy_env ''s1'' 1000), ProcessExit,
          RequestStart start_a (healthy_env ''s2'' 2000)] example_server"

text \<open>One ffprobe run: its output (written without the quotation marks of JSON), and the
  three built-ins on the strings of that output (on every other argument they answer
  \<open>None\<close> and \<open>NaN\<close> here).\<close>

definition probe_output :: string where
  "probe_output = ''{format:{duration:12.900000,size:1000}}''"

definition probe_format :: "(string \<times> json) list" where
  "probe_format = [(''duration'', JString ''12.900000''), (''size'', JString ''1000'')]"

text \<open>Two more outputs of ffprobe with exit code 0: a format without a duration, and a
  format that is a string.\<close>

definition probe_output_no_duration :: string where
  "probe_output_no_duration = ''{format:{size:1000}}''"

definition probe_output_format_string :: string where
  "probe_output_format_string = ''{format:abc}''"

definition probe_JSON_parse :: "string \<Rightarrow> json option" where
  "probe_JSON_parse s =
     (if s = probe_output then Some (JObject [(''format'', JObject probe_format)])
      else if s = probe_output_no_duration
      then Some (JObject [(''format'', JObject [(''size'', JString ''1000'')])])
      else if s = probe_output_format_string
      then Some (JObject [(''format'', JString ''abc'')])
      else None)"

definition probe_parseFloat :: "jsval \<Rightarrow> jsnum" where
  "probe_parseFloat v = (if v = Value (JString ''12.900000'') then Num (129 / 10) else NaN)"

definition probe_parseInt :: "jsval \<Rightarrow> jsnum" where
  "probe_parseInt v = (if v = Value (JString ''1000'') then Num 1000 else NaN)"

section \<open>The queue: reading, reordering, adding\<close>

subsection \<open>Facts about the map and the read\<close>

lemma jsmap_get_delete: "jsmap_get (jsmap_delete k m) k' = (if k' = k then None else jsmap_get m k')"
  unfolding jsmap_get_def jsmap_delete_def
  by (induction m) auto

lemma jsmap_set_fresh: "k \<notin> fst ` set m \<Longrightarrow> jsmap_set k v m = m @ [(k, v)]"
  by (induction m) auto


lemma jsmap_get_set: "jsmap_get (jsmap_set k v m) k' = (if k' = k then Some v else jsmap_get m k')"
  unfolding jsmap_get_def
  by (induction m) auto

lemma attach_videos_filter:
  "attach_videos vs xs =
     map (\<lambda>i. (i, the (jsmap_get vs (q_videoId i)))) (filter (\<lambda>i. jsmap_get vs (q_videoId i) \<noteq> None) xs)"
  by (induction xs) (auto split: option.splits)

lemma getQueue_sorted_filter:
  "map fst (getQueue st) =
     sort_key q_position (filter (\<lambda>i. getVideo (q_videoId i) st \<noteq> None) (jsmap_values (queue st)))"
  by (simp add: getQueue_def attach_videos_filter getVideo_def filter_sort comp_def)

lemma getQueue_video:
  "e \<in> set (getQueue st) \<Longrightarrow> getVideo (q_videoId (fst e)) st = Some (snd e)"
  by (auto simp: getQueue_def attach_videos_filter getVideo_def)

lemma getQueue_positions_sorted: "sorted (map (\<lambda>e. q_position (fst e)) (getQueue st))"
proof -
  have "map (\<lambda>e. q_position (fst e)) (getQueue st) = map q_position (map fst (getQueue st))"
    by (simp add: comp_def)
  then show ?thesis
    by (simp only: getQueue_sorted_filter sorted_sort_key)
qed









subsection \<open>The claims about the queue\<close>

lemmas example_defs =
  example_storage_def example_server_def video_a_def video_b_def entry_a_def entry_b_def
  page_credential_def idle_service_def

text \<open>
  C10. The queue read returns exactly the entries whose video the catalog has, each with
  that video, in ascending order of position (it is the stable sort of those entries).
  Deleting a video leaves the queue map as it is, and the read after it has no entry of
  the deleted video.
\<close>

theorem getQueue_omits_orphans:
  "map fst (getQueue st) =
     sort_key q_position (filter (\<lambda>i. getVideo (q_videoId i) st \<noteq> None) (jsmap_values (queue st)))
   \<and> (\<forall>e \<in> set (getQueue st). getVideo (q_videoId (fst e)) st = Some (snd e))
   \<and> sorted (map (\<lambda>e. q_position (fst e)) (getQueue st))
   \<and> queue (snd (deleteVideo ident st)) = queue st
   \<and> (\<forall>e \<in> set (getQueue (snd (deleteVideo ident st))). q_videoId (fst e) \<noteq> ident)"
proof -
  have "q_videoId (fst e) \<noteq> ident" if "e \<in> set (getQueue (snd (deleteVideo ident st)))" for e
  proof -
    have "getVideo (q_videoId (fst e)) (snd (deleteVideo ident st)) = Some (snd e)"
      using that by (rule getQueue_video)
    then show ?thesis
      by (auto simp: getVideo_def deleteVideo_def jsmap_get_delete)
  qed
  moreover have "queue (snd (deleteVideo ident st)) = queue st"
    by (simp add: deleteVideo_def)
  ultimately show ?thesis
    using getQueue_sorted_filter getQueue_video getQueue_positions_sorted by blast
qed

text \<open>After \<^verbatim>\<open>deleteVideo("v1")\<close> the map still holds both entries and the read returns
  the one of \<^verbatim>\<open>v2\<close>.\<close>

theorem getQueue_omits_orphans_witness:
  "(entry_b, video_b) \<in> set (getQueue (snd (deleteVideo ''v1'' example_storage)))
   \<and> getVideo (q_videoId entry_b) (snd (deleteVideo ''v1'' example_storage)) = Some video_b
   \<and> map fst (getQueue (snd (deleteVideo ''v1'' example_storage))) = [entry_b]
   \<and> queue (snd (deleteVideo ''v1'' example_storage)) = [(''q1'', entry_a), (''q2'', entry_b)]
   \<and> q_videoId entry_b \<noteq> ''v1''"
proof -
  have q: "getQueue (snd (deleteVideo ''v1'' example_storage)) = [(entry_b, video_b)]"
    by (simp add: getQueue_def deleteVideo_def jsmap_delete_def jsmap_values_def jsmap_get_def
        example_defs)
  show ?thesis
    using getQueue_omits_orphans [of "snd (deleteVideo ''v1'' example_storage)" "''v1''"]
    unfolding q
    by (simp add: deleteVideo_def getVideo_def jsmap_delete_def jsmap_get_def example_defs)
qed








section \<open>The streaming service\<close>

subsection \<open>startStream\<close>

lemma onEvent_onClose: "onEvent e svc = onClose svc"
  by (cases e) (simp_all add: onClose_def)

lemma onClose_idem: "onClose (onClose svc) = onClose svc"
  by (simp add: onClose_def)

lemma fold_onEvent: "es \<noteq> [] \<Longrightarrow> fold onEvent es svc = onClose svc"
proof (induction es arbitrary: svc)
  case Nil
  then show ?case by simp
next
  case (Cons e es)
  show ?case
  proof (cases "es = []")
    case True
    then show ?thesis by (simp add: onEvent_onClose)
  next
    case False
    then show ?thesis using Cons.IH [of "onEvent e svc"]
      by (simp add: onEvent_onClose onClose_idem)
  qed
qed

lemma firstError_time: "firstError evs = Some (t, m) \<Longrightarrow> (t, ProcError m) \<in> set evs"
  by (induction evs rule: firstError.induct) auto

lemma startStream_AlreadyRunning:
  "isStreaming svc \<Longrightarrow> startStream options existsSync events svc = (Settled 0 (Inl AlreadyRunning), svc)"
  by (simp add: startStream_def)

lemma startStream_InputNotFound:
  "\<not> isStreaming svc \<Longrightarrow> \<not> existsSync (''uploads/'' @ inputFile options) \<Longrightarrow>
   startStream options existsSync events svc = (Settled 0 (Inl (InputNotFound (inputFile options))), svc)"
  by (simp add: startStream_def)

lemma startStream_confirmed:
  "\<not> isStreaming svc \<Longrightarrow> existsSync (''uploads/'' @ inputFile options) \<Longrightarrow>
   filter (\<lambda>te. fst te < 2000) events = [] \<Longrightarrow>
   startStream options existsSync events svc =
     (Settled 2000 (Inr True),
      svc\<lparr>streamingProcess := Some (spawn ''ffmpeg'' (''uploads/'' @ inputFile options) options),
          isStreaming := True,
          currentStreamInfo := Some options,
          spawn_log := spawn_log svc @ [spawn ''ffmpeg'' (''uploads/'' @ inputFile options) options]\<rparr>)"
  by (simp add: startStream_def Let_def spawn_def)

lemma startStream_failed:
  assumes "\<not> isStreaming svc" "existsSync (''uploads/'' @ inputFile options)"
    "filter (\<lambda>te. fst te < 2000) events \<noteq> []"
  shows "snd (startStream options existsSync events svc) =
           svc\<lparr>streamingProcess := None, isStreaming := False,
               spawn_log := spawn_log svc @ [spawn ''ffmpeg'' (''uploads/'' @ inputFile options) options]\<rparr>"
    and "fst (startStream options existsSync events svc) =
           (case firstError (filter (\<lambda>te. fst te < 2000) events) of
              Some (t, m) \<Rightarrow> Settled t (Inl (ProcessError m))
            | None \<Rightarrow> Settled 2000 (Inl LaunchFailed))"
  using assms
  by (simp_all add: startStream_def Let_def fold_onEvent onClose_def split: option.splits)


text \<open>
  What the launch keeps of its contract. \<^verbatim>\<open>startStream\<close> fails at once with
  AlreadyRunning while the flag \<^verbatim>\<open>isStreaming\<close> is set and
  with InputNotFound when the input file is not on disk, in both cases with the service
  (its process handle and its trace of spawned processes) as it was. Otherwise it spawns
  one process. When no event of the process falls into the 2000 ms window, success is
  reported at 2000 ms with the handle kept and the streaming flag set. When the process
  closes (it exited or a signal ended it) or emits an error within the window, the
  launch fails and the handle is discarded: at 2000 ms with LaunchFailed, or at the time
  of the first error event with that error. Success is never reported before 2000 ms,
  and only with a handle that is not killed.
\<close>

lemma startStream_contract:
  "(isStreaming svc \<longrightarrow>
      startStream options existsSync events svc = (Settled 0 (Inl AlreadyRunning), svc))
   \<and> (\<not> isStreaming svc \<and> \<not> existsSync (''uploads/'' @ inputFile options) \<longrightarrow>
      startStream options existsSync events svc =
        (Settled 0 (Inl (InputNotFound (inputFile options))), svc))
   \<and> (\<not> isStreaming svc \<and> existsSync (''uploads/'' @ inputFile options)
        \<and> filter (\<lambda>te. fst te < 2000) events = [] \<longrightarrow>
      fst (startStream options existsSync events svc) = Settled 2000 (Inr True)
      \<and> streamingProcess (snd (startStream options existsSync events svc)) =
          Some (spawn ''ffmpeg'' (''uploads/'' @ inputFile options) options)
      \<and> isStreaming (snd (startStream options existsSync events svc))
      \<and> spawn_log (snd (startStream options existsSync events svc)) =
          spawn_log svc @ [spawn ''ffmpeg'' (''uploads/'' @ inputFile options) options])
   \<and> (\<not> isStreaming svc \<and> existsSync (''uploads/'' @ inputFile options)
        \<and> filter (\<lambda>te. fst te < 2000) events \<noteq> [] \<longrightarrow>
      streamingProcess (snd (startStream options existsSync events svc)) = None
      \<and> \<not> isStreaming (snd (startStream options existsSync events svc))
      \<and> (firstError (filter (\<lambda>te. fst te < 2000) events) = None \<longrightarrow>
            fst (startStream options existsSync events svc) = Settled 2000 (Inl LaunchFailed))
      \<and> (\<forall>t m. firstError (filter (\<lambda>te. fst te < 2000) events) = Some (t, m) \<longrightarrow>
            fst (startStream options existsSync events svc) = Settled t (Inl (ProcessError m))
            \<and> t < 2000))
   \<and> (\<forall>t b. fst (startStream options existsSync events svc) = Settled t (Inr b) \<longrightarrow>
         t = 2000 \<and> b \<and> isStreaming (snd (startStream options existsSync events svc))
         \<and> (\<exists>p. streamingProcess (snd (startStream options existsSync events svc)) = Some p
                \<and> \<not> killed p))"
proof -
  let ?path = "''uploads/'' @ inputFile options"
  let ?window = "filter (\<lambda>te. fst te < 2000) events"
  let ?r = "startStream options existsSync events svc"
  have a: "?r = (Settled 0 (Inl AlreadyRunning), svc)" if "isStreaming svc"
    using that by (rule startStream_AlreadyRunning)
  have b: "?r = (Settled 0 (Inl (InputNotFound (inputFile options))), svc)"
    if "\<not> isStreaming svc" "\<not> existsSync ?path"
    using startStream_InputNotFound [of svc existsSync options events] that by simp
  have c: "fst ?r = Settled 2000 (Inr True) \<and> streamingProcess (snd ?r) = Some (spawn ''ffmpeg'' ?path options)
      \<and> isStreaming (snd ?r) \<and> spawn_log (snd ?r) = spawn_log svc @ [spawn ''ffmpeg'' ?path options]"
    if "\<not> isStreaming svc" "existsSync ?path" "?window = []"
    using startStream_confirmed [of svc existsSync options events] that by simp
  have d1: "streamingProcess (snd ?r) = None \<and> \<not> isStreaming (snd ?r)"
    if "\<not> isStreaming svc" "existsSync ?path" "?window \<noteq> []"
    using startStream_failed(1) [of svc existsSync options events] that by simp
  have d2: "fst ?r = Settled 2000 (Inl LaunchFailed)"
    if "\<not> isStreaming svc" "existsSync ?path" "?window \<noteq> []" "firstError ?window = None"
    using startStream_failed(2) [of svc existsSync options events] that by simp
  have d3: "fst ?r = Settled t (Inl (ProcessError m)) \<and> t < 2000"
    if "\<not> isStreaming svc" "existsSync ?path" "?window \<noteq> []" "firstError ?window = Some (t, m)"
    for t m
  proof -
    have "(t, ProcError m) \<in> set ?window"
      using that(4) by (rule firstError_time)
    then have "t < 2000" by simp
    then show ?thesis
      using startStream_failed(2) [of svc existsSync options events] that by simp
  qed
  have e: "t = 2000 \<and> b \<and> isStreaming (snd ?r) \<and> (\<exists>p. streamingProcess (snd ?r) = Some p \<and> \<not> killed p)"
    if ok: "fst ?r = Settled t (Inr b)" for t b
  proof -
    have 1: "\<not> isStreaming svc"
    proof
      assume "isStreaming svc"
      then have "fst ?r = Settled 0 (Inl AlreadyRunning)" by (simp only: a fst_conv)
      with ok show False by simp
    qed
    have 2: "existsSync ?path"
    proof (rule ccontr)
      assume "\<not> existsSync ?path"
      with 1 have "?r = (Settled 0 (Inl (InputNotFound (inputFile options))), svc)"
        by (rule b)
      then have "fst ?r = Settled 0 (Inl (InputNotFound (inputFile options)))"
        by (simp only: fst_conv)
      with ok show False by simp
    qed
    have 3: "?window = []"
    proof (rule ccontr)
      assume w: "?window \<noteq> []"
      show False
      proof (cases "firstError ?window")
        case None
        then show False using d2 [OF 1 2 w] ok by simp
      next
        case (Some tm)
        then show False using d3 [OF 1 2 w, of "fst tm" "snd tm"] ok by simp
      qed
    qed
    show ?thesis using c [OF 1 2 3] ok by (simp add: spawn_def)
  qed
  show ?thesis
  proof (intro conjI impI allI)
    assume "isStreaming svc"
    then show "?r = (Settled 0 (Inl AlreadyRunning), svc)" by (rule a)
  next
    assume "\<not> isStreaming svc \<and> \<not> existsSync ?path"
    then show "?r = (Settled 0 (Inl (InputNotFound (inputFile options))), svc)"
      using b by blast
  next
    assume h: "\<not> isStreaming svc \<and> existsSync ?path \<and> ?window = []"
    then have "fst ?r = Settled 2000 (Inr True) \<and> streamingProcess (snd ?r) = Some (spawn ''ffmpeg'' ?path options)
      \<and> isStreaming (snd ?r) \<and> spawn_log (snd ?r) = spawn_log svc @ [spawn ''ffmpeg'' ?path options]"
      using c by blast
    then show "fst ?r = Settled 2000 (Inr True)"
      and "streamingProcess (snd ?r) = Some (spawn ''ffmpeg'' ?path options)"
      and "isStreaming (snd ?r)"
      and "spawn_log (snd ?r) = spawn_log svc @ [spawn ''ffmpeg'' ?path options]"
      by blast+
  next
    assume h: "\<not> isStreaming svc \<and> existsSync ?path \<and> ?window \<noteq> []"
    then show "streamingProcess (snd ?r) = None" and "\<not> isStreaming (snd ?r)"
      using d1 by blast+
    {
      assume "firstError ?window = None"
      then show "fst ?r = Settled 2000 (Inl LaunchFailed)" using h d2 by blast
    }
    {
      fix t m
      assume "firstError ?window = Some (t, m)"
      then show "fst ?r = Settled t (Inl (ProcessError m))" and "t < 2000" using h d3 by blast+
    }
  next
    fix t b
    assume ok: "fst ?r = Settled t (Inr b)"
    then show "t = 2000" and "b" and "isStreaming (snd ?r)"
      and "\<exists>p. streamingProcess (snd ?r) = Some p \<and> \<not> killed p"
      using e by blast+
  qed
qed


text \<open>The four outcomes at concrete services: active, missing file, an exit after the
  window, an exit within the window.\<close>

lemma startStream_contract_example:
  "isStreaming streaming_service
   \<and> startStream example_options (\<lambda>path. True) [] streaming_service =
       (Settled 0 (Inl AlreadyRunning), streaming_service)
   \<and> \<not> isStreaming idle_service
   \<and> startStream example_options (\<lambda>path. False) [] idle_service =
       (Settled 0 (Inl (InputNotFound (inputFile example_options))), idle_service)
   \<and> filter (\<lambda>te. fst te < 2000) [(2500 :: nat, ProcClose (Some 1))] = []
   \<and> fst (startStream example_options (\<lambda>path. True) [(2500, ProcClose (Some 1))] idle_service) =
       Settled 2000 (Inr True)
   \<and> isStreaming (snd (startStream example_options (\<lambda>path. True) [(2500, ProcClose (Some 1))] idle_service))
   \<and> filter (\<lambda>te. fst te < 2000) [(500 :: nat, ProcClose (Some 1))] \<noteq> []
   \<and> firstError (filter (\<lambda>te. fst te < 2000) [(500 :: nat, ProcClose (Some 1))]) = None
   \<and> fst (startStream example_options (\<lambda>path. True) [(500, ProcClose (Some 1))] idle_service) =
       Settled 2000 (Inl LaunchFailed)
   \<and> streamingProcess (snd (startStream example_options (\<lambda>path. True) [(500, ProcClose (Some 1))] idle_service)) = None"
proof -
  have s: "isStreaming streaming_service" by (simp add: streaming_service_def)
  have i: "\<not> isStreaming idle_service" by (simp add: idle_service_def)
  have w1: "filter (\<lambda>te. fst te < 2000) [(2500 :: nat, ProcClose (Some 1))] = []" by simp
  have w2: "filter (\<lambda>te. fst te < 2000) [(500 :: nat, ProcClose (Some 1))] \<noteq> []" by simp
  have w3: "firstError (filter (\<lambda>te. fst te < 2000) [(500 :: nat, ProcClose (Some 1))]) = None" by simp
  note t1 = startStream_contract [of streaming_service example_options "\<lambda>path. True" "[]"]
  note t2 = startStream_contract [of idle_service example_options "\<lambda>path. False" "[]"]
  note t3 = startStream_contract [of idle_service example_options "\<lambda>path. True" "[(2500, ProcClose (Some 1))]"]
  note t4 = startStream_contract [of idle_service example_options "\<lambda>path. True" "[(500, ProcClose (Some 1))]"]
  have 1: "startStream example_options (\<lambda>path. True) [] streaming_service =
       (Settled 0 (Inl AlreadyRunning), streaming_service)"
    using t1 [THEN conjunct1] s by (rule mp)
  have 2: "startStream example_options (\<lambda>path. False) [] idle_service =
       (Settled 0 (Inl (InputNotFound (inputFile example_options))), idle_service)"
    using t2 [THEN conjunct2, THEN conjunct1] i by simp
  have 3: "fst (startStream example_options (\<lambda>path. True) [(2500, ProcClose (Some 1))] idle_service) =
       Settled 2000 (Inr True)
     \<and> isStreaming (snd (startStream example_options (\<lambda>path. True) [(2500, ProcClose (Some 1))] idle_service))"
    using t3 [THEN conjunct2, THEN conjunct2, THEN conjunct1] i w1 by simp
  have 4: "fst (startStream example_options (\<lambda>path. True) [(500, ProcClose (Some 1))] idle_service) =
       Settled 2000 (Inl LaunchFailed)
     \<and> streamingProcess (snd (startStream example_options (\<lambda>path. True) [(500, ProcClose (Some 1))] idle_service)) = None"
    using t4 [THEN conjunct2, THEN conjunct2, THEN conjunct2, THEN conjunct1] i w2 w3 by simp
  show ?thesis
    using s i w1 w2 w3 1 2 3 4 by (intro conjI) (simp_all only: simp_thms)
qed

text \<open>The synchronous part of the launch, \<^verbatim>\<open>startStream_call\<close>, agrees with the whole
  launch: what it refuses the launch refuses at once, and what it spawns is spawned.\<close>

lemma startStream_call_rejects:
  "fst (startStream_call options existsSync svc) = Some e \<Longrightarrow>
   startStream options existsSync events svc = (Settled 0 (Inl e), svc)"
  by (auto simp: startStream_call_def startStream_def Let_def split: if_splits)

lemma startStream_call_spawns:
  "\<not> isStreaming svc \<Longrightarrow> existsSync (''uploads/'' @ inputFile options) \<Longrightarrow>
   startStream_call options existsSync svc =
     (None, svc\<lparr>streamingProcess := Some (spawn ''ffmpeg'' (''uploads/'' @ inputFile options) options),
               spawn_log := spawn_log svc @ [spawn ''ffmpeg'' (''uploads/'' @ inputFile options) options]\<rparr>)"
  by (simp add: startStream_call_def Let_def)

text \<open>
  C7. The launch is to fail with AlreadyRunning, and start no process, whenever a stream
  is already active. \<^verbatim>\<open>startStream\<close> tests the flag \<^verbatim>\<open>isStreaming\<close>, which only the
  2000 ms timer sets, and never the process handle, which the spawn sets. So at a service
  whose handle is set and whose flag is not, as it is from the spawn of a launch until
  its timer fires, a launch whose input file is on disk is not refused: it spawns a
  second process and puts it in place of the handle, and when no event of that process
  falls into its 2000 ms window it reports success, with two processes spawned where the
  contract allows one.
\<close>

theorem startStream_ignores_handle:
  "\<not> isStreaming svc \<and> streamingProcess svc = Some p
   \<and> existsSync (''uploads/'' @ inputFile options) \<longrightarrow>
     startStream_call options existsSync svc =
       (None, svc\<lparr>streamingProcess := Some (spawn ''ffmpeg'' (''uploads/'' @ inputFile options) options),
                 spawn_log := spawn_log svc @ [spawn ''ffmpeg'' (''uploads/'' @ inputFile options) options]\<rparr>)
     \<and> (filter (\<lambda>te. fst te < 2000) events = [] \<longrightarrow>
          fst (startStream options existsSync events svc) = Settled 2000 (Inr True)
          \<and> isStreaming (snd (startStream options existsSync events svc))
          \<and> spawn_log (snd (startStream options existsSync events svc)) =
              spawn_log svc @ [spawn ''ffmpeg'' (''uploads/'' @ inputFile options) options])"
proof (intro impI conjI)
  assume h: "\<not> isStreaming svc \<and> streamingProcess svc = Some p
   \<and> existsSync (''uploads/'' @ inputFile options)"
  then show "startStream_call options existsSync svc =
       (None, svc\<lparr>streamingProcess := Some (spawn ''ffmpeg'' (''uploads/'' @ inputFile options) options),
                 spawn_log := spawn_log svc @ [spawn ''ffmpeg'' (''uploads/'' @ inputFile options) options]\<rparr>)"
    by (simp add: startStream_call_spawns)
  assume w: "filter (\<lambda>te. fst te < 2000) events = []"
  note c = startStream_confirmed [of svc existsSync options events]
  show "fst (startStream options existsSync events svc) = Settled 2000 (Inr True)"
    using c h w by simp
  show "isStreaming (snd (startStream options existsSync events svc))"
    using c h w by simp
  show "spawn_log (snd (startStream options existsSync events svc)) =
              spawn_log svc @ [spawn ''ffmpeg'' (''uploads/'' @ inputFile options) options]"
    using c h w by simp
qed

text \<open>A launch at the idle service, then a second one before the timer of the first has
  fired: both processes are spawned, and the second launch reports success.\<close>

theorem second_launch_inside_window:
  "\<not> isStreaming launching_service
   \<and> streamingProcess launching_service = Some (spawn ''ffmpeg'' ''uploads/a.mp4'' example_options)
   \<and> spawn_log launching_service = [spawn ''ffmpeg'' ''uploads/a.mp4'' example_options]
   \<and> fst (startStream_call example_options (\<lambda>path. True) launching_service) = None
   \<and> spawn_log (snd (startStream_call example_options (\<lambda>path. True) launching_service)) =
       [spawn ''ffmpeg'' ''uploads/a.mp4'' example_options,
        spawn ''ffmpeg'' ''uploads/a.mp4'' example_options]
   \<and> filter (\<lambda>te. fst te < 2000) ([] :: (nat \<times> proc_event) list) = []
   \<and> fst (startStream example_options (\<lambda>path. True) [] launching_service) = Settled 2000 (Inr True)
   \<and> spawn_log (snd (startStream example_options (\<lambda>path. True) [] launching_service)) =
       [spawn ''ffmpeg'' ''uploads/a.mp4'' example_options,
        spawn ''ffmpeg'' ''uploads/a.mp4'' example_options]"
proof -
  let ?p = "spawn ''ffmpeg'' ''uploads/a.mp4'' example_options"
  have l: "launching_service =
      idle_service\<lparr>streamingProcess := Some ?p, spawn_log := [?p]\<rparr>"
    by (simp add: launching_service_def startStream_call_def idle_service_def example_options_def
        Let_def)
  have a: "\<not> isStreaming launching_service" by (simp add: l idle_service_def)
  have b: "streamingProcess launching_service = Some ?p" by (simp add: l)
  have c: "spawn_log launching_service = [?p]" by (simp add: l)
  have e: "(\<lambda>path. True) (''uploads/'' @ inputFile example_options)" by simp
  have i: "inputFile example_options = ''a.mp4''"
    by (simp add: example_options_def)
  have w: "filter (\<lambda>te. fst te < 2000) ([] :: (nat \<times> proc_event) list) = []" by simp
  note t = startStream_ignores_handle [of launching_service ?p "\<lambda>path. True" example_options "[]",
      THEN mp, OF conjI [OF a conjI [OF b e]]]
  have 1: "fst (startStream_call example_options (\<lambda>path. True) launching_service) = None"
    using t [THEN conjunct1] by simp
  have 2: "spawn_log (snd (startStream_call example_options (\<lambda>path. True) launching_service)) = [?p, ?p]"
    using t [THEN conjunct1] by (simp add: c i)
  note t2 = t [THEN conjunct2, THEN mp, OF w]
  have 3: "fst (startStream example_options (\<lambda>path. True) [] launching_service) = Settled 2000 (Inr True)"
    using t2 by (rule conjunct1)
  have 4: "spawn_log (snd (startStream example_options (\<lambda>path. True) [] launching_service)) = [?p, ?p]"
    using t2 [THEN conjunct2, THEN conjunct2] by (simp add: c i)
  from a b c 1 2 w 3 4 show ?thesis by (intro conjI) (simp_all only: simp_thms)
qed

subsection \<open>stopStream\<close>

lemma kill_running:
  "streamingProcess svc = Some p \<Longrightarrow> cp_running p \<Longrightarrow>
   kill_streamingProcess sig svc =
     svc\<lparr>streamingProcess := Some (p\<lparr>killed := True\<rparr>), signal_log := signal_log svc @ [sig]\<rparr>"
  by (simp add: kill_streamingProcess_def cp_kill_def)

lemma kill_gone:
  "streamingProcess svc = Some p \<Longrightarrow> \<not> cp_running p \<Longrightarrow> kill_streamingProcess sig svc = svc"
  by (simp add: kill_streamingProcess_def cp_kill_def)

lemma escalationTimer_after_SIGTERM:
  "streamingProcess svc = Some p \<Longrightarrow> cp_running p \<Longrightarrow>
   escalationTimer (kill_streamingProcess SIGTERM svc) = kill_streamingProcess SIGTERM svc"
  by (simp add: kill_running escalationTimer_def)

lemma escalationTimer_gone:
  "streamingProcess svc = Some p \<Longrightarrow> \<not> cp_running p \<Longrightarrow> escalationTimer svc = svc"
  by (simp add: escalationTimer_def kill_gone)

lemma signal_log_onStopClose: "signal_log (onStopClose svc) = signal_log svc"
  by (simp add: onStopClose_def onClose_def)

lemma stopStream_signal_log:
  "signal_log (snd (stopStream closeAfter svc)) =
     signal_log svc @
       (if isStreaming svc \<and> (\<exists>p. streamingProcess svc = Some p \<and> cp_running p)
        then [SIGTERM] else [])"
proof (cases "isStreaming svc \<and> streamingProcess svc \<noteq> None")
  case False
  then show ?thesis by (auto simp: stopStream_def)
next
  case True
  then obtain p where p: "streamingProcess svc = Some p" and s: "isStreaming svc" by auto
  show ?thesis
  proof (cases "cp_running p")
    case True
    have k: "signal_log (kill_streamingProcess SIGTERM svc) = signal_log svc @ [SIGTERM]"
      by (simp add: kill_running [OF p True])
    show ?thesis
      using p s True k
      by (simp add: stopStream_def Let_def escalationTimer_after_SIGTERM signal_log_onStopClose
          split: option.splits)
  next
    case False
    show ?thesis
      using p s False
      by (simp add: stopStream_def Let_def kill_gone escalationTimer_gone signal_log_onStopClose
          split: option.splits)
  qed
qed

text \<open>
  C8. The claim says that \<^verbatim>\<open>stopStream\<close> sends SIGKILL when the process has not
  exited as the 5000 ms timer fires. The code does not: for a service that streams with
  a process that is running, the only signal \<^verbatim>\<open>stopStream\<close> delivers is SIGTERM,
  because the delivered SIGTERM has set \<^verbatim>\<open>killed\<close> and the timer's callback sends
  SIGKILL only when \<^verbatim>\<open>killed\<close> is false. A process that never ends on SIGTERM
  leaves the promise pending with the handle kept; a process that closes after \<open>d\<close>
  milliseconds resolves the promise then, with the handle discarded. No call of
  \<^verbatim>\<open>stopStream\<close> delivers SIGKILL, whatever the service.
\<close>

theorem stopStream_never_sends_SIGKILL:
  "(isStreaming svc \<and> streamingProcess svc = Some p \<and> cp_running p \<longrightarrow>
      signal_log (snd (stopStream closeAfter svc)) = signal_log svc @ [SIGTERM]
      \<and> (closeAfter = None \<longrightarrow>
            stopStream closeAfter svc =
              (Pending, svc\<lparr>streamingProcess := Some (p\<lparr>killed := True\<rparr>),
                           signal_log := signal_log svc @ [SIGTERM]\<rparr>))
      \<and> (\<forall>d. closeAfter = Some d \<longrightarrow>
            fst (stopStream closeAfter svc) = Settled d True
            \<and> streamingProcess (snd (stopStream closeAfter svc)) = None
            \<and> \<not> isStreaming (snd (stopStream closeAfter svc))))
   \<and> SIGKILL \<notin> set (signal_log (snd (stopStream closeAfter svc))) - set (signal_log svc)"
proof (intro conjI impI allI)
  assume h: "isStreaming svc \<and> streamingProcess svc = Some p \<and> cp_running p"
  then show "signal_log (snd (stopStream closeAfter svc)) = signal_log svc @ [SIGTERM]"
    by (simp add: stopStream_signal_log)
  {
    assume "closeAfter = None"
    with h show "stopStream closeAfter svc =
              (Pending, svc\<lparr>streamingProcess := Some (p\<lparr>killed := True\<rparr>),
                           signal_log := signal_log svc @ [SIGTERM]\<rparr>)"
      by (simp add: stopStream_def Let_def kill_running escalationTimer_def)
  }
  {
    fix d assume "closeAfter = Some d"
    with h show "fst (stopStream closeAfter svc) = Settled d True"
      and "streamingProcess (snd (stopStream closeAfter svc)) = None"
      and "\<not> isStreaming (snd (stopStream closeAfter svc))"
      by (simp_all add: stopStream_def Let_def kill_running escalationTimer_def
          onStopClose_def onClose_def)
  }
next
  show "SIGKILL \<notin> set (signal_log (snd (stopStream closeAfter svc))) - set (signal_log svc)"
    by (simp add: stopStream_signal_log)
qed

text \<open>A process that ignores SIGTERM, and one that takes 7000 ms to close: one SIGTERM
  each, no SIGKILL at 5000 ms.\<close>

theorem stopStream_never_sends_SIGKILL_witness:
  "isStreaming streaming_service
   \<and> streamingProcess streaming_service = Some (spawn ''ffmpeg'' ''uploads/a.mp4'' example_options)
   \<and> cp_running (spawn ''ffmpeg'' ''uploads/a.mp4'' example_options)
   \<and> stopStream None streaming_service =
       (Pending,
        streaming_service
          \<lparr>streamingProcess := Some ((spawn ''ffmpeg'' ''uploads/a.mp4'' example_options)\<lparr>killed := True\<rparr>),
           signal_log := [SIGTERM]\<rparr>)
   \<and> fst (stopStream (Some 7000) streaming_service) = Settled 7000 True
   \<and> signal_log (snd (stopStream (Some 7000) streaming_service)) = [SIGTERM]"
proof -
  let ?p = "spawn ''ffmpeg'' ''uploads/a.mp4'' example_options"
  have s: "isStreaming streaming_service" by (simp add: streaming_service_def)
  have p: "streamingProcess streaming_service = Some ?p" by (simp add: streaming_service_def)
  have r: "cp_running ?p" by (simp add: spawn_def)
  have l: "signal_log streaming_service = []" by (simp add: streaming_service_def)
  have 1: "stopStream None streaming_service =
       (Pending, streaming_service\<lparr>streamingProcess := Some (?p\<lparr>killed := True\<rparr>),
                                  signal_log := [SIGTERM]\<rparr>)"
    using stopStream_never_sends_SIGKILL [of streaming_service ?p None] s p r l by simp
  have 2: "fst (stopStream (Some 7000) streaming_service) = Settled 7000 True
     \<and> signal_log (snd (stopStream (Some 7000) streaming_service)) = [SIGTERM]"
    using stopStream_never_sends_SIGKILL [of streaming_service ?p "Some 7000"] s p r l by simp
  from s p r 1 2 show ?thesis by (intro conjI) (simp_all only: simp_thms)
qed

subsection \<open>getVideoInfo\<close>

lemma getVideoInfo_nonzero:
  "code \<noteq> Some 0 \<Longrightarrow>
   getVideoInfo JSON_parse parseFloat parseInt output (ProbeClose code) = Inl FFprobeFailed"
  by (simp add: getVideoInfo_def)

lemma getVideoInfo_syntax_error:
  "JSON_parse output = None \<Longrightarrow>
   getVideoInfo JSON_parse parseFloat parseInt output (ProbeClose (Some 0)) = Inl ParseFailed"
  by (simp add: getVideoInfo_def)

lemma getVideoInfo_no_format:
  "JSON_parse output = Some info \<Longrightarrow>
   get_member (Value info) ''format'' = None \<or> get_member (Value info) ''format'' = Some Undefined
     \<or> get_member (Value info) ''format'' = Some (Value JNull) \<Longrightarrow>
   getVideoInfo JSON_parse parseFloat parseInt output (ProbeClose (Some 0)) = Inl ParseFailed"
  by (auto simp: getVideoInfo_def)

lemma getVideoInfo_format:
  "JSON_parse output = Some info \<Longrightarrow> get_member (Value info) ''format'' = Some (Value (JObject fmt)) \<Longrightarrow>
   getVideoInfo JSON_parse parseFloat parseInt output (ProbeClose (Some 0)) =
     Inr \<lparr>vi_duration =
            Math_floor (parseFloat (case map_of fmt ''duration'' of Some v \<Rightarrow> Value v | None \<Rightarrow> Undefined)),
          vi_size = parseInt (case map_of fmt ''size'' of Some v \<Rightarrow> Value v | None \<Rightarrow> Undefined)\<rparr>"
  by (simp add: getVideoInfo_def Let_def)

text \<open>
  What the probe keeps of its contract. When ffprobe closes with code 0 and its output parses to an object whose
  \<^verbatim>\<open>format\<close> member holds a duration that \<^verbatim>\<open>parseFloat\<close> reads as \<open>D\<close> and a
  size that \<^verbatim>\<open>parseInt\<close> reads as \<open>S\<close>, \<^verbatim>\<open>getVideoInfo\<close> returns exactly the
  duration \<open>\<lfloor>D\<rfloor>\<close> and the size \<open>S\<close>. It fails when ffprobe closes with another
  code (or none), when \<^verbatim>\<open>JSON.parse\<close> throws, and when the parsed value has no
  \<^verbatim>\<open>format\<close> member to read from.
\<close>

lemma getVideoInfo_probe:
  "(JSON_parse output = Some (JObject members) \<and> map_of members ''format'' = Some (JObject fmt)
      \<and> map_of fmt ''duration'' = Some d \<and> map_of fmt ''size'' = Some sz
      \<and> parseFloat (Value d) = Num D \<and> parseInt (Value sz) = Num (of_int S) \<longrightarrow>
      getVideoInfo JSON_parse parseFloat parseInt output (ProbeClose (Some 0)) =
        Inr \<lparr>vi_duration = Num (of_int \<lfloor>D\<rfloor>), vi_size = Num (of_int S)\<rparr>)
   \<and> (code \<noteq> Some 0 \<longrightarrow>
        getVideoInfo JSON_parse parseFloat parseInt output (ProbeClose code) = Inl FFprobeFailed)
   \<and> (JSON_parse output = None \<longrightarrow>
        getVideoInfo JSON_parse parseFloat parseInt output (ProbeClose (Some 0)) = Inl ParseFailed)
   \<and> (JSON_parse output = Some info
        \<and> (get_member (Value info) ''format'' = None
             \<or> get_member (Value info) ''format'' = Some Undefined
             \<or> get_member (Value info) ''format'' = Some (Value JNull)) \<longrightarrow>
        getVideoInfo JSON_parse parseFloat parseInt output (ProbeClose (Some 0)) = Inl ParseFailed)"
proof (intro conjI impI)
  assume h: "JSON_parse output = Some (JObject members) \<and> map_of members ''format'' = Some (JObject fmt)
      \<and> map_of fmt ''duration'' = Some d \<and> map_of fmt ''size'' = Some sz
      \<and> parseFloat (Value d) = Num D \<and> parseInt (Value sz) = Num (of_int S)"
  then have "get_member (Value (JObject members)) ''format'' = Some (Value (JObject fmt))"
    by simp
  with h show "getVideoInfo JSON_parse parseFloat parseInt output (ProbeClose (Some 0)) =
        Inr \<lparr>vi_duration = Num (of_int \<lfloor>D\<rfloor>), vi_size = Num (of_int S)\<rparr>"
    by (simp add: getVideoInfo_format [of JSON_parse "output" "JObject members" fmt])
next
  assume "code \<noteq> Some 0"
  then show "getVideoInfo JSON_parse parseFloat parseInt output (ProbeClose code) = Inl FFprobeFailed"
    by (rule getVideoInfo_nonzero)
next
  assume "JSON_parse output = None"
  then show "getVideoInfo JSON_parse parseFloat parseInt output (ProbeClose (Some 0)) = Inl ParseFailed"
    by (rule getVideoInfo_syntax_error)
next
  assume "JSON_parse output = Some info
        \<and> (get_member (Value info) ''format'' = None
             \<or> get_member (Value info) ''format'' = Some Undefined
             \<or> get_member (Value info) ''format'' = Some (Value JNull))"
  then show "getVideoInfo JSON_parse parseFloat parseInt output (ProbeClose (Some 0)) = Inl ParseFailed"
    using getVideoInfo_no_format [of JSON_parse "output" info] by blast
qed

text \<open>A \<^verbatim>\<open>format\<close> object without a duration is not a failure of the parse: the
  promise resolves with the duration \<^verbatim>\<open>NaN\<close>.\<close>

lemma getVideoInfo_duration_missing:
  "JSON_parse output = Some (JObject [(''format'', JObject [(''size'', JString ''100'')])]) \<Longrightarrow>
   parseFloat Undefined = NaN \<Longrightarrow>
   getVideoInfo JSON_parse parseFloat parseInt output (ProbeClose (Some 0)) =
     Inr \<lparr>vi_duration = NaN, vi_size = parseInt (Value (JString ''100''))\<rparr>"
  by (simp add: getVideoInfo_def)

text \<open>A file of 12.9 seconds and 1000 bytes; the same run with exit code 1; an output
  that is no JSON.\<close>

lemma getVideoInfo_probe_example:
  "probe_JSON_parse probe_output = Some (JObject [(''format'', JObject probe_format)])
   \<and> map_of [(''format'', JObject probe_format)] ''format'' = Some (JObject probe_format)
   \<and> map_of probe_format ''duration'' = Some (JString ''12.900000'')
   \<and> map_of probe_format ''size'' = Some (JString ''1000'')
   \<and> probe_parseFloat (Value (JString ''12.900000'')) = Num (129 / 10)
   \<and> probe_parseInt (Value (JString ''1000'')) = Num (of_int 1000)
   \<and> getVideoInfo probe_JSON_parse probe_parseFloat probe_parseInt probe_output (ProbeClose (Some 0)) =
       Inr \<lparr>vi_duration = Num 12, vi_size = Num 1000\<rparr>
   \<and> Some (1 :: int) \<noteq> Some 0
   \<and> getVideoInfo probe_JSON_parse probe_parseFloat probe_parseInt probe_output (ProbeClose (Some 1)) =
       Inl FFprobeFailed
   \<and> probe_JSON_parse ''not json'' = None
   \<and> getVideoInfo probe_JSON_parse probe_parseFloat probe_parseInt ''not json'' (ProbeClose (Some 0)) =
       Inl ParseFailed"
proof -
  have j: "probe_JSON_parse probe_output = Some (JObject [(''format'', JObject probe_format)])"
    by (simp add: probe_JSON_parse_def probe_output_def)
  have f: "map_of [(''format'', JObject probe_format)] ''format'' = Some (JObject probe_format)"
    by simp
  have d: "map_of probe_format ''duration'' = Some (JString ''12.900000'')"
    by (simp add: probe_format_def)
  have z: "map_of probe_format ''size'' = Some (JString ''1000'')"
    by (simp add: probe_format_def)
  have pf: "probe_parseFloat (Value (JString ''12.900000'')) = Num (129 / 10)"
    by (simp add: probe_parseFloat_def)
  have pi: "probe_parseInt (Value (JString ''1000'')) = Num (of_int 1000)"
    by (simp add: probe_parseInt_def)
  have n: "probe_JSON_parse ''not json'' = None"
    by (simp add: probe_JSON_parse_def probe_output_def probe_output_no_duration_def
        probe_output_format_string_def)
  have fl: "\<lfloor>129 / 10 :: rat\<rfloor> = 12" by (rule floor_unique) simp_all
  note t = getVideoInfo_probe [of probe_JSON_parse probe_output "[(''format'', JObject probe_format)]"
      probe_format "JString ''12.900000''" "JString ''1000''" probe_parseFloat "129 / 10" probe_parseInt 1000]
  have 1: "getVideoInfo probe_JSON_parse probe_parseFloat probe_parseInt probe_output (ProbeClose (Some 0)) =
       Inr \<lparr>vi_duration = Num 12, vi_size = Num 1000\<rparr>"
    using t [THEN conjunct1] j f d z pf pi fl by simp
  have 2: "getVideoInfo probe_JSON_parse probe_parseFloat probe_parseInt probe_output (ProbeClose (Some 1)) =
       Inl FFprobeFailed"
    using getVideoInfo_probe [of probe_JSON_parse probe_output _ _ _ _ probe_parseFloat _ probe_parseInt _ "Some 1"]
    by simp
  have 3: "getVideoInfo probe_JSON_parse probe_parseFloat probe_parseInt ''not json'' (ProbeClose (Some 0)) =
       Inl ParseFailed"
    using getVideoInfo_probe [of probe_JSON_parse "''not json''" _ _ _ _ probe_parseFloat _ probe_parseInt] n
    by simp
  have c: "Some (1 :: int) \<noteq> Some 0" by simp
  from j f d z pf pi 1 2 3 n c show ?thesis by (intro conjI) (simp_all only: simp_thms)
qed




section \<open>The streaming routes\<close>

subsection \<open>Facts about the routes\<close>

lemma find_None_filter: "List.find P xs = None \<longleftrightarrow> filter P xs = []"
  by (induction xs) auto

lemma find_Some_filter: "List.find P xs = Some x \<Longrightarrow> \<exists>rest. filter P xs = x # rest"
  by (induction xs) (auto split: if_splits)

lemma find_Some_set: "List.find P xs = Some x \<Longrightarrow> x \<in> set xs"
  by (induction xs) (auto split: if_splits)

lemma getCurrentSession_None: "getCurrentSession (storage srv) = None \<longleftrightarrow> streaming_sessions srv = []"
  by (simp add: getCurrentSession_def streaming_sessions_def find_None_filter)

lemma getCurrentSession_hd:
  "getCurrentSession (storage srv) = Some cur \<Longrightarrow> \<exists>rest. streaming_sessions srv = cur # rest"
  by (simp add: getCurrentSession_def streaming_sessions_def find_Some_filter)

lemma process_exit_storage:
  "storage (process_exit srv) = storage srv" "broadcasts (process_exit srv) = broadcasts srv"
  "facebook_log (process_exit srv) = facebook_log srv"
  "ffmpegService (process_exit srv) = processExit (ffmpegService srv)"
  by (simp_all add: process_exit_def)

lemma processExit_clears:
  "streamingProcess (processExit svc) = None"
  "streamingProcess svc \<noteq> None \<Longrightarrow> \<not> isStreaming (processExit svc)"
  by (auto simp: processExit_def onClose_def split: option.splits)

lemma stream_stop_no_session:
  "getCurrentSession (storage srv) = None \<Longrightarrow>
   stream_stop closeAfter now srv = (Some (Error 400 ''No active stream found''), srv)"
  by (simp add: stream_stop_def)

lemma stream_stop_session:
  assumes "getCurrentSession (storage srv) = Some cur"
  shows "stream_stop closeAfter now srv =
     (case fst (stopStream closeAfter (ffmpegService srv)) of
        Pending \<Rightarrow> (None, srv\<lparr>ffmpegService := snd (stopStream closeAfter (ffmpegService srv))\<rparr>)
      | Settled t b \<Rightarrow>
          (Some (Json SuccessJson),
           srv\<lparr>ffmpegService := snd (stopStream closeAfter (ffmpegService srv)),
               storage := snd (updateSession (s_id cur)
                   (\<lambda>s. s\<lparr>s_status := ''stopped'', s_endTime := Some now\<rparr>) (storage srv)),
               broadcasts := broadcasts srv @ [StreamStopped (s_id cur)]\<rparr>))"
  using assms
  by (simp add: stream_stop_def Let_def split_beta split: promise.splits)

lemma stream_stop_facebook_log:
  "facebook_log (snd (stream_stop closeAfter now srv)) = facebook_log srv"
proof (cases "getCurrentSession (storage srv)")
  case None
  then show ?thesis by (simp add: stream_stop_no_session)
next
  case (Some cur)
  then show ?thesis by (simp add: stream_stop_session split: promise.splits)
qed

lemma keyed_lookup:
  "distinct (map fst m) \<Longrightarrow> list_all (\<lambda>p. s_id (snd p) = fst p) m \<Longrightarrow> s \<in> snd ` set m \<Longrightarrow>
   jsmap_get m (s_id s) = Some s"
  unfolding jsmap_get_def
  by (induction m) (auto simp: rev_image_eqI)

lemma filter_after_stop:
  "distinct (map fst m) \<Longrightarrow> list_all (\<lambda>p. s_id (snd p) = fst p) m \<Longrightarrow>
   List.find P (map snd m) = Some cur \<Longrightarrow> \<not> P cur' \<Longrightarrow>
   filter P (map snd (jsmap_set (s_id cur) cur' m)) = tl (filter P (map snd m))"
proof (induction m)
  case Nil
  then show ?case by simp
next
  case (Cons a m)
  obtain k s where a: "a = (k, s)" by (cases a)
  show ?case
  proof (cases "P s")
    case True
    then have "cur = s" using Cons.prems(3) a by simp
    moreover have "s_id s = k" using Cons.prems(2) a by simp
    ultimately show ?thesis using True Cons.prems(4) a by simp
  next
    case False
    then have f: "List.find P (map snd m) = Some cur" using Cons.prems(3) a by simp
    then have "cur \<in> snd ` set m"
      using find_Some_set [of P "map snd m" cur] by simp
    then have "jsmap_get m (s_id cur) = Some cur"
      using Cons.prems(1,2) by (intro keyed_lookup) auto
    then have "s_id cur \<in> fst ` set m"
      unfolding jsmap_get_def using map_of_eq_None_iff [of m "s_id cur"] by simp
    then have "k \<noteq> s_id cur" using Cons.prems(1) a by auto
    then show ?thesis
      using Cons.IH Cons.prems(1,2,4) f False a by simp
  qed
qed


lemmas eval_defs =
  example_storage_def example_server_def video_a_def video_b_def entry_a_def entry_b_def
  page_credential_def idle_service_def start_a_def healthy_env_def
  stream_start_def getVideo_def getFacebookCredentials_def getConfiguration_def startStream_def
  createSession_def jsmap_get_def jsmap_values_def spawn_def Let_def

lemma live_server_eval:
  "storage live_server =
     example_storage\<lparr>sessions := [(''s1'', session_1)], configuration := Some default_configuration\<rparr>"
  "ffmpegService live_server = streaming_service"
  "broadcasts live_server = [StreamStarted session_1 video_a]"
  "facebook_log live_server = [CreateLiveVideo ''page1'' ''token'' (Some ''Live'') None]"
  by (simp_all add: live_server_def session_1_def default_configuration_def streaming_service_def
      example_options_def eval_defs)

lemma two_live_server_start:
  "two_live_server = snd (stream_start start_a (healthy_env ''s2'' 2000) (process_exit live_server))"
  by (simp add: two_live_server_def run_def live_server_def)

lemma exited_server_eval:
  "storage (process_exit live_server) = storage live_server"
  "ffmpegService (process_exit live_server) =
     streaming_service\<lparr>isStreaming := False, streamingProcess := None\<rparr>"
  by (simp_all add: process_exit_def processExit_def onClose_def live_server_eval
      streaming_service_def)

lemma two_live_server_eval:
  "storage two_live_server =
     example_storage\<lparr>sessions := [(''s1'', session_1), (''s2'', session_2)],
                      configuration := Some default_configuration\<rparr>"
  "ffmpegService two_live_server =
     streaming_service\<lparr>spawn_log := [spawn ''ffmpeg'' ''uploads/a.mp4'' example_options,
                                      spawn ''ffmpeg'' ''uploads/a.mp4'' example_options]\<rparr>"
  "broadcasts two_live_server = [StreamStarted session_1 video_a, StreamStarted session_2 video_a]"
  "facebook_log two_live_server =
     [CreateLiveVideo ''page1'' ''token'' (Some ''Live'') None,
      CreateLiveVideo ''page1'' ''token'' (Some ''Live'') None]"
  by (simp_all add: two_live_server_start process_exit_def processExit_def onClose_def
      live_server_eval session_1_def session_2_def default_configuration_def
      streaming_service_def example_options_def eval_defs)


lemma getConfiguration_sessions:
  "sessions (snd (getConfiguration uid now st)) = sessions st"
  "videos (snd (getConfiguration uid now st)) = videos st"
  by (simp_all add: getConfiguration_def Let_def split: option.splits)

lemma stream_start_success:
  assumes vid: "r_videoId body = Some vid" and video: "getVideo vid (storage srv) = Some video"
    and cred: "List.find (\<lambda>c. Some (c_pageId c) = r_facebookPageId body)
                 (getFacebookCredentials (storage srv)) = Some cred"
    and live: "e_liveVideo env = Some lv"
    and idle: "\<not> isStreaming (ffmpegService srv)"
    and onDisk: "e_existsSync env (''uploads/'' @ v_filename video)"
    and window: "filter (\<lambda>te. fst te < 2000) (e_events env) = []"
  shows "fst (stream_start body env srv) =
           Json (SuccessSessionJson
             \<lparr>s_id = e_sessionUid env, s_status = ''streaming'', s_currentVideoId = r_videoId body,
              s_facebookPageId = r_facebookPageId body, s_streamTitle = r_streamTitle body,
              s_streamDescription = r_streamDescription body, s_startTime = Some (e_now env),
              s_endTime = None, s_createdAt = Some (e_now env)\<rparr>)"
    and "sessions (storage (snd (stream_start body env srv))) =
           jsmap_set (e_sessionUid env)
             \<lparr>s_id = e_sessionUid env, s_status = ''streaming'', s_currentVideoId = r_videoId body,
              s_facebookPageId = r_facebookPageId body, s_streamTitle = r_streamTitle body,
              s_streamDescription = r_streamDescription body, s_startTime = Some (e_now env),
              s_endTime = None, s_createdAt = Some (e_now env)\<rparr>
             (sessions (storage srv))"
proof -
  have started: "fst (startStream opts (e_existsSync env) (e_events env) (ffmpegService srv)) =
      Settled 2000 (Inr True)" if "inputFile opts = v_filename video" for opts
    using idle onDisk window that
    by (simp add: startStream_confirmed [of "ffmpegService srv" "e_existsSync env" opts "e_events env"])
  show "fst (stream_start body env srv) =
           Json (SuccessSessionJson
             \<lparr>s_id = e_sessionUid env, s_status = ''streaming'', s_currentVideoId = r_videoId body,
              s_facebookPageId = r_facebookPageId body, s_streamTitle = r_streamTitle body,
              s_streamDescription = r_streamDescription body, s_startTime = Some (e_now env),
              s_endTime = None, s_createdAt = Some (e_now env)\<rparr>)"
    using vid video cred live started
    by (simp add: stream_start_def Let_def split_beta createSession_def)
  show "sessions (storage (snd (stream_start body env srv))) =
           jsmap_set (e_sessionUid env)
             \<lparr>s_id = e_sessionUid env, s_status = ''streaming'', s_currentVideoId = r_videoId body,
              s_facebookPageId = r_facebookPageId body, s_streamTitle = r_streamTitle body,
              s_streamDescription = r_streamDescription body, s_startTime = Some (e_now env),
              s_endTime = None, s_createdAt = Some (e_now env)\<rparr>
             (sessions (storage srv))"
    using vid video cred live started
    by (simp add: stream_start_def Let_def split_beta createSession_def getConfiguration_sessions)
qed

text \<open>
  C1. The claim says that at most one session has status \<^verbatim>\<open>streaming\<close>. The start
  route does not keep it: it never reads the sessions. Whenever the service is not
  streaming and the request succeeds (the video and the page's credentials exist, the
  live video is created, the input file is on disk, the process survives the window)
  under an unused session identifier, it adds one session with status \<^verbatim>\<open>streaming\<close>
  behind those that already have it.
\<close>

theorem stream_start_ignores_sessions:
  "r_videoId body = Some vid \<and> getVideo vid (storage srv) = Some video
   \<and> List.find (\<lambda>c. Some (c_pageId c) = r_facebookPageId body)
         (getFacebookCredentials (storage srv)) = Some cred
   \<and> e_liveVideo env = Some lv
   \<and> \<not> isStreaming (ffmpegService srv)
   \<and> e_existsSync env (''uploads/'' @ v_filename video)
   \<and> filter (\<lambda>te. fst te < 2000) (e_events env) = []
   \<and> \<not> jsmap_has (sessions (storage srv)) (e_sessionUid env)
   \<longrightarrow> (\<exists>session. fst (stream_start body env srv) = Json (SuccessSessionJson session)
          \<and> s_status session = ''streaming''
          \<and> streaming_sessions (snd (stream_start body env srv)) = streaming_sessions srv @ [session])"
proof
  assume h: "r_videoId body = Some vid \<and> getVideo vid (storage srv) = Some video
   \<and> List.find (\<lambda>c. Some (c_pageId c) = r_facebookPageId body)
         (getFacebookCredentials (storage srv)) = Some cred
   \<and> e_liveVideo env = Some lv
   \<and> \<not> isStreaming (ffmpegService srv)
   \<and> e_existsSync env (''uploads/'' @ v_filename video)
   \<and> filter (\<lambda>te. fst te < 2000) (e_events env) = []
   \<and> \<not> jsmap_has (sessions (storage srv)) (e_sessionUid env)"
  let ?session = "\<lparr>s_id = e_sessionUid env, s_status = ''streaming'', s_currentVideoId = r_videoId body,
              s_facebookPageId = r_facebookPageId body, s_streamTitle = r_streamTitle body,
              s_streamDescription = r_streamDescription body, s_startTime = Some (e_now env),
              s_endTime = None, s_createdAt = Some (e_now env)\<rparr>"
  have 1: "fst (stream_start body env srv) = Json (SuccessSessionJson ?session)"
    using h by (intro stream_start_success(1)) blast+
  have 2: "sessions (storage (snd (stream_start body env srv))) =
      jsmap_set (e_sessionUid env) ?session (sessions (storage srv))"
    using h by (intro stream_start_success(2)) blast+
  have "e_sessionUid env \<notin> fst ` set (sessions (storage srv))"
    using h by (simp add: jsmap_has_def)
  then have "sessions (storage (snd (stream_start body env srv))) =
      sessions (storage srv) @ [(e_sessionUid env, ?session)]"
    using 2 by (simp add: jsmap_set_fresh)
  then have 3: "streaming_sessions (snd (stream_start body env srv)) = streaming_sessions srv @ [?session]"
    by (simp add: streaming_sessions_def jsmap_values_def)
  from 1 3 show "\<exists>session. fst (stream_start body env srv) = Json (SuccessSessionJson session)
          \<and> s_status session = ''streaming''
          \<and> streaming_sessions (snd (stream_start body env srv)) = streaming_sessions srv @ [session]"
    by (intro exI [of _ ?session]) simp
qed

text \<open>A start, an exit of the process by itself and a second start: the service is idle
  after the exit, the first session still has status \<^verbatim>\<open>streaming\<close>, and the second
  start leaves two sessions with that status.\<close>

theorem second_streaming_session_after_exit:
  "r_videoId start_a = Some ''v1''
   \<and> getVideo ''v1'' (storage (process_exit live_server)) = Some video_a
   \<and> List.find (\<lambda>c. Some (c_pageId c) = r_facebookPageId start_a)
         (getFacebookCredentials (storage (process_exit live_server))) = Some page_credential
   \<and> e_liveVideo (healthy_env ''s2'' 2000) = Some \<lparr>lv_id = ''lv1'', lv_stream_url = ''rtmp://x''\<rparr>
   \<and> \<not> isStreaming (ffmpegService (process_exit live_server))
   \<and> e_existsSync (healthy_env ''s2'' 2000) (''uploads/'' @ v_filename video_a)
   \<and> filter (\<lambda>te. fst te < 2000) (e_events (healthy_env ''s2'' 2000)) = []
   \<and> \<not> jsmap_has (sessions (storage (process_exit live_server))) (e_sessionUid (healthy_env ''s2'' 2000))
   \<and> streaming_sessions (process_exit live_server) = [session_1]
   \<and> length (streaming_sessions two_live_server) = 2
   \<and> streaming_sessions two_live_server = [session_1, session_2]
   \<and> s_status session_1 = ''streaming'' \<and> s_status session_2 = ''streaming''
   \<and> s_id session_1 \<noteq> s_id session_2"
proof -
  let ?srv = "process_exit live_server"
  let ?env = "healthy_env ''s2'' 2000"
  have a: "r_videoId start_a = Some ''v1''" by (simp add: start_a_def)
  have b: "getVideo ''v1'' (storage ?srv) = Some video_a"
    by (simp add: exited_server_eval live_server_eval getVideo_def jsmap_get_def example_storage_def)
  have c: "List.find (\<lambda>c. Some (c_pageId c) = r_facebookPageId start_a)
         (getFacebookCredentials (storage ?srv)) = Some page_credential"
    by (simp add: exited_server_eval live_server_eval getFacebookCredentials_def jsmap_values_def
        example_storage_def start_a_def page_credential_def)
  have d: "e_liveVideo ?env = Some \<lparr>lv_id = ''lv1'', lv_stream_url = ''rtmp://x''\<rparr>"
    by (simp add: healthy_env_def)
  have e: "\<not> isStreaming (ffmpegService ?srv)" by (simp add: exited_server_eval)
  have f: "e_existsSync ?env (''uploads/'' @ v_filename video_a)" by (simp add: healthy_env_def)
  have g: "filter (\<lambda>te. fst te < 2000) (e_events ?env) = []" by (simp add: healthy_env_def)
  have i: "\<not> jsmap_has (sessions (storage ?srv)) (e_sessionUid ?env)"
    by (simp add: exited_server_eval live_server_eval jsmap_has_def healthy_env_def)
  have j: "streaming_sessions ?srv = [session_1]"
    by (simp add: streaming_sessions_def exited_server_eval live_server_eval jsmap_values_def
        session_1_def)
  have k: "s_status session_1 = ''streaming''" "s_status session_2 = ''streaming''"
    "s_id session_1 \<noteq> s_id session_2"
    by (simp_all add: session_1_def session_2_def)
  obtain session where
    s: "fst (stream_start start_a ?env ?srv) = Json (SuccessSessionJson session)"
       "streaming_sessions (snd (stream_start start_a ?env ?srv)) = streaming_sessions ?srv @ [session]"
    using stream_start_ignores_sessions [of start_a "''v1''" ?srv video_a page_credential ?env
        "\<lparr>lv_id = ''lv1'', lv_stream_url = ''rtmp://x''\<rparr>"] a b c d e f g i
    by blast
  have l: "length (streaming_sessions two_live_server) = 2"
    using s(2) j by (simp add: two_live_server_start)
  have m: "streaming_sessions two_live_server = [session_1, session_2]"
    by (simp add: streaming_sessions_def two_live_server_eval jsmap_values_def session_1_def
        session_2_def)
  from a b c d e f g i j k l m show ?thesis by (intro conjI) (simp_all only: simp_thms)
qed


text \<open>
  C2, as stated, fails: after the process of a live session ends by itself, the current
  session is the same record with status \<^verbatim>\<open>streaming\<close>, and nothing was broadcast.
\<close>

theorem exit_not_reported_counterexample:
  "getCurrentSession (storage live_server) = Some session_1
   \<and> isStreaming (ffmpegService live_server)
   \<and> getCurrentSession (storage (process_exit live_server)) = Some session_1
   \<and> s_status session_1 = ''streaming''
   \<and> broadcasts (process_exit live_server) = broadcasts live_server"
  by (simp add: getCurrentSession_def process_exit_def live_server_eval jsmap_values_def
      session_1_def streaming_service_def)

text \<open>
  C2, amended. An exit of the streaming process by itself leaves the store (so every
  session and its status) and the broadcasts as they were; it clears the process handle
  of the service and its streaming flag, so that the status route answers
  \<^verbatim>\<open>isStreaming: false\<close> together with the unchanged current session.
\<close>

theorem process_exit_leaves_session:
  "storage (process_exit srv) = storage srv
   \<and> streaming_sessions (process_exit srv) = streaming_sessions srv
   \<and> broadcasts (process_exit srv) = broadcasts srv
   \<and> streamingProcess (ffmpegService (process_exit srv)) = None
   \<and> (streamingProcess (ffmpegService srv) \<noteq> None \<longrightarrow>
        \<not> isStreaming (ffmpegService (process_exit srv))
        \<and> stream_status (process_exit srv) =
            Json (StatusJson False (getCurrentSession (storage srv))))"
  by (simp add: process_exit_storage processExit_clears streaming_sessions_def stream_status_def
      getStreamingStatus_def)

text \<open>The live server of the example before and after the exit.\<close>

theorem exit_while_live_is_silent:
  "streamingProcess (ffmpegService live_server) \<noteq> None
   \<and> isStreaming (ffmpegService live_server)
   \<and> streaming_sessions live_server = [session_1]
   \<and> streaming_sessions (process_exit live_server) = [session_1]
   \<and> s_status session_1 = ''streaming''
   \<and> broadcasts live_server = [StreamStarted session_1 video_a]
   \<and> broadcasts (process_exit live_server) = [StreamStarted session_1 video_a]
   \<and> \<not> isStreaming (ffmpegService (process_exit live_server))
   \<and> stream_status (process_exit live_server) = Json (StatusJson False (Some session_1))"
proof -
  have a: "streamingProcess (ffmpegService live_server) \<noteq> None"
    "isStreaming (ffmpegService live_server)"
    by (simp_all add: live_server_eval streaming_service_def)
  have b: "streaming_sessions live_server = [session_1]"
    by (simp add: streaming_sessions_def live_server_eval jsmap_values_def session_1_def)
  have c: "s_status session_1 = ''streaming''" by (simp add: session_1_def)
  have d: "broadcasts live_server = [StreamStarted session_1 video_a]"
    by (simp add: live_server_eval)
  have e: "getCurrentSession (storage live_server) = Some session_1"
    by (simp add: getCurrentSession_def live_server_eval jsmap_values_def session_1_def)
  note t = process_exit_leaves_session [of live_server]
  have 1: "streaming_sessions (process_exit live_server) = [session_1]"
    using t [THEN conjunct2, THEN conjunct1] b by (simp only:)
  have 2: "broadcasts (process_exit live_server) = [StreamStarted session_1 video_a]"
    using t [THEN conjunct2, THEN conjunct2, THEN conjunct1] d by (simp only:)
  note t5 = t [THEN conjunct2, THEN conjunct2, THEN conjunct2, THEN conjunct2, THEN mp, OF a(1)]
  have 3: "\<not> isStreaming (ffmpegService (process_exit live_server))"
    using t5 by (rule conjunct1)
  have 4: "stream_status (process_exit live_server) = Json (StatusJson False (Some session_1))"
    using t5 [THEN conjunct2] e by (simp only:)
  from a b c d 1 2 3 4 show ?thesis by (intro conjI) (simp_all only: simp_thms)
qed

lemma updateSession_keyed:
  assumes "sessions_keyed st" "getCurrentSession st = Some cur"
  shows "sessions (snd (updateSession (s_id cur) f st)) = jsmap_set (s_id cur) (f cur) (sessions st)"
proof -
  have "cur \<in> snd ` set (sessions st)"
    using assms(2) find_Some_set [of "\<lambda>s. s_status s = ''streaming''" "map snd (sessions st)" cur]
    by (simp add: getCurrentSession_def jsmap_values_def)
  then have "jsmap_get (sessions st) (s_id cur) = Some cur"
    using assms(1) by (intro keyed_lookup) (simp_all add: sessions_keyed_def)
  then show ?thesis by (simp add: updateSession_def Let_def)
qed

lemma stream_stop_success_state:
  assumes k: "sessions_keyed (storage srv)" and c: "getCurrentSession (storage srv) = Some cur"
    and r: "fst (stream_stop closeAfter now srv) = Some resp"
  shows "resp = Json SuccessJson"
    and "sessions (storage (snd (stream_stop closeAfter now srv))) =
           jsmap_set (s_id cur) (cur\<lparr>s_status := ''stopped'', s_endTime := Some now\<rparr>)
             (sessions (storage srv))"
    and "broadcasts (snd (stream_stop closeAfter now srv)) =
           broadcasts srv @ [StreamStopped (s_id cur)]"
    and "ffmpegService (snd (stream_stop closeAfter now srv)) =
           snd (stopStream closeAfter (ffmpegService srv))"
  using r updateSession_keyed [OF k c]
  by (auto simp: stream_stop_session [OF c] split: promise.splits)

lemma stop_live_server_eval:
  "fst (stream_stop (Some 100) 3000 live_server) = Some (Json SuccessJson)"
proof -
  have c: "getCurrentSession (storage live_server) = Some session_1"
    by (simp add: getCurrentSession_def live_server_eval jsmap_values_def session_1_def)
  have "fst (stopStream (Some 100) (ffmpegService live_server)) = Settled 100 True"
    by (simp add: live_server_eval stopStream_def streaming_service_def Let_def)
  then show ?thesis
    by (simp add: stream_stop_session [OF c])
qed

text \<open>
  C4, as stated, fails: a stop of the live session succeeds, and the calls that reached
  the Graph API are still the one \<^verbatim>\<open>createLiveVideo\<close> of the start: there is no
  \<^verbatim>\<open>endLiveVideo\<close>.
\<close>

theorem stop_without_endLiveVideo_counterexample:
  "getCurrentSession (storage live_server) = Some session_1
   \<and> fst (stream_stop (Some 100) 3000 live_server) = Some (Json SuccessJson)
   \<and> facebook_log (snd (stream_stop (Some 100) 3000 live_server)) =
       [CreateLiveVideo ''page1'' ''token'' (Some ''Live'') None]"
  by (simp add: stop_live_server_eval stream_stop_facebook_log live_server_eval
      getCurrentSession_def jsmap_values_def session_1_def)

text \<open>
  C4, amended. The stop route makes no call to the Graph API. When it answers for a
  current session (with the sessions stored under their identifiers), the answer is
  success, the session is stored with status \<^verbatim>\<open>stopped\<close> and the end time of the
  request, \<^verbatim>\<open>stream_stopped\<close> with the session's identifier is broadcast, and the
  service is the one \<^verbatim>\<open>stopStream\<close> leaves.
\<close>

theorem stream_stop_keeps_live_target:
  "facebook_log (snd (stream_stop closeAfter now srv)) = facebook_log srv
   \<and> (sessions_keyed (storage srv) \<and> getCurrentSession (storage srv) = Some cur
        \<and> fst (stream_stop closeAfter now srv) = Some resp \<longrightarrow>
        resp = Json SuccessJson
        \<and> jsmap_get (sessions (storage (snd (stream_stop closeAfter now srv)))) (s_id cur) =
            Some (cur\<lparr>s_status := ''stopped'', s_endTime := Some now\<rparr>)
        \<and> broadcasts (snd (stream_stop closeAfter now srv)) =
            broadcasts srv @ [StreamStopped (s_id cur)]
        \<and> ffmpegService (snd (stream_stop closeAfter now srv)) =
            snd (stopStream closeAfter (ffmpegService srv)))"
proof (intro conjI impI)
  show "facebook_log (snd (stream_stop closeAfter now srv)) = facebook_log srv"
    by (rule stream_stop_facebook_log)
next
  assume h: "sessions_keyed (storage srv) \<and> getCurrentSession (storage srv) = Some cur
        \<and> fst (stream_stop closeAfter now srv) = Some resp"
  note s = stream_stop_success_state [of srv cur closeAfter now resp]
  show "resp = Json SuccessJson" using h s(1) by blast
  show "jsmap_get (sessions (storage (snd (stream_stop closeAfter now srv)))) (s_id cur) =
            Some (cur\<lparr>s_status := ''stopped'', s_endTime := Some now\<rparr>)"
    using h s(2) by (simp add: jsmap_get_set)
  show "broadcasts (snd (stream_stop closeAfter now srv)) =
            broadcasts srv @ [StreamStopped (s_id cur)]"
    using h s(3) by blast
  show "ffmpegService (snd (stream_stop closeAfter now srv)) =
            snd (stopStream closeAfter (ffmpegService srv))"
    using h s(4) by blast
qed

text \<open>The stop of the live server of the example: SIGTERM, the session stopped at 3000,
  one \<^verbatim>\<open>stream_stopped\<close>, and the Graph API trace of the start alone.\<close>

theorem stop_leaves_live_video_open:
  "sessions_keyed (storage live_server)
   \<and> getCurrentSession (storage live_server) = Some session_1
   \<and> fst (stream_stop (Some 100) 3000 live_server) = Some (Json SuccessJson)
   \<and> jsmap_get (sessions (storage (snd (stream_stop (Some 100) 3000 live_server)))) ''s1'' =
       Some (session_1\<lparr>s_status := ''stopped'', s_endTime := Some 3000\<rparr>)
   \<and> broadcasts (snd (stream_stop (Some 100) 3000 live_server)) =
       [StreamStarted session_1 video_a, StreamStopped ''s1'']
   \<and> signal_log (ffmpegService (snd (stream_stop (Some 100) 3000 live_server))) = [SIGTERM]
   \<and> facebook_log (snd (stream_stop (Some 100) 3000 live_server)) =
       [CreateLiveVideo ''page1'' ''token'' (Some ''Live'') None]"
proof -
  have k: "sessions_keyed (storage live_server)"
    by (simp add: sessions_keyed_def live_server_eval session_1_def)
  have c: "getCurrentSession (storage live_server) = Some session_1"
    by (simp add: getCurrentSession_def live_server_eval jsmap_values_def session_1_def)
  have i: "s_id session_1 = ''s1''" by (simp add: session_1_def)
  note r = stop_live_server_eval
  note t = stream_stop_keeps_live_target [of "Some 100" 3000 live_server session_1 "Json SuccessJson"]
  note t2 = t [THEN conjunct2, THEN mp, OF conjI [OF k conjI [OF c r]]]
  have 1: "jsmap_get (sessions (storage (snd (stream_stop (Some 100) 3000 live_server)))) ''s1'' =
       Some (session_1\<lparr>s_status := ''stopped'', s_endTime := Some 3000\<rparr>)"
    using t2 [THEN conjunct2, THEN conjunct1] by (simp only: i)
  have 2: "broadcasts (snd (stream_stop (Some 100) 3000 live_server)) =
       [StreamStarted session_1 video_a, StreamStopped ''s1'']"
    using t2 [THEN conjunct2, THEN conjunct2, THEN conjunct1]
    by (simp only: i live_server_eval append.simps)
  have "ffmpegService (snd (stream_stop (Some 100) 3000 live_server)) =
       snd (stopStream (Some 100) streaming_service)"
    using t2 [THEN conjunct2, THEN conjunct2, THEN conjunct2] by (simp only: live_server_eval)
  then have 3: "signal_log (ffmpegService (snd (stream_stop (Some 100) 3000 live_server))) = [SIGTERM]"
    by (simp add: stopStream_signal_log streaming_service_def spawn_def)
  have 4: "facebook_log (snd (stream_stop (Some 100) 3000 live_server)) =
       [CreateLiveVideo ''page1'' ''token'' (Some ''Live'') None]"
    using t [THEN conjunct1] by (simp only: live_server_eval)
  from k c r 1 2 3 4 show ?thesis by (intro conjI) (simp_all only: simp_thms)
qed


text \<open>
  C3. The stop route answers "No active stream found" exactly when no session has status
  \<^verbatim>\<open>streaming\<close>, and then changes nothing. A stop that succeeds takes the first
  streaming session out of the streaming ones and leaves the others, so the stop that
  follows it answers "No active stream found" exactly when there was one streaming
  session before the first stop, and not when there were two or more, as the claim says
  it always does.
\<close>

theorem stream_stop_NoActiveStream:
  "(fst (stream_stop closeAfter now srv) = Some (Error 400 ''No active stream found'')
      \<longleftrightarrow> streaming_sessions srv = [])
   \<and> (streaming_sessions srv = [] \<longrightarrow> snd (stream_stop closeAfter now srv) = srv)
   \<and> (sessions_keyed (storage srv)
        \<and> fst (stream_stop closeAfter now srv) = Some (Json SuccessJson) \<longrightarrow>
        streaming_sessions (snd (stream_stop closeAfter now srv)) = tl (streaming_sessions srv)
        \<and> (fst (stream_stop closeAfter' now' (snd (stream_stop closeAfter now srv))) =
               Some (Error 400 ''No active stream found'')
             \<longleftrightarrow> length (streaming_sessions srv) = 1))"
proof -
  have iff: "fst (stream_stop ca t s) = Some (Error 400 ''No active stream found'')
      \<longleftrightarrow> streaming_sessions s = []" for ca t s
  proof (cases "getCurrentSession (storage s)")
    case None
    then show ?thesis
      using getCurrentSession_None [of s] by (simp add: stream_stop_no_session)
  next
    case (Some cur)
    then have "streaming_sessions s \<noteq> []"
      using getCurrentSession_None [of s] by simp
    moreover have "fst (stream_stop ca t s) \<noteq> Some (Error 400 ''No active stream found'')"
      by (simp add: stream_stop_session [OF Some] split: promise.splits)
    ultimately show ?thesis by simp
  qed
  have unchanged: "snd (stream_stop closeAfter now srv) = srv" if "streaming_sessions srv = []"
    using that getCurrentSession_None [of srv] by (simp add: stream_stop_no_session)
  have after: "streaming_sessions (snd (stream_stop closeAfter now srv)) = tl (streaming_sessions srv)
        \<and> (fst (stream_stop closeAfter' now' (snd (stream_stop closeAfter now srv))) =
               Some (Error 400 ''No active stream found'')
             \<longleftrightarrow> length (streaming_sessions srv) = 1)"
    if k: "sessions_keyed (storage srv)"
      and ok: "fst (stream_stop closeAfter now srv) = Some (Json SuccessJson)"
  proof -
    obtain cur where cur: "getCurrentSession (storage srv) = Some cur"
      using ok by (cases "getCurrentSession (storage srv)") (simp_all add: stream_stop_no_session)
    let ?cur' = "cur\<lparr>s_status := ''stopped'', s_endTime := Some now\<rparr>"
    have "sessions (storage (snd (stream_stop closeAfter now srv))) =
        jsmap_set (s_id cur) ?cur' (sessions (storage srv))"
      using k cur ok by (rule stream_stop_success_state(2))
    moreover have "filter (\<lambda>s. s_status s = ''streaming'')
          (map snd (jsmap_set (s_id cur) ?cur' (sessions (storage srv)))) =
        tl (filter (\<lambda>s. s_status s = ''streaming'') (map snd (sessions (storage srv))))"
      using k cur
      by (intro filter_after_stop) (simp_all add: sessions_keyed_def getCurrentSession_def jsmap_values_def)
    ultimately have tl: "streaming_sessions (snd (stream_stop closeAfter now srv)) =
        tl (streaming_sessions srv)"
      by (simp add: streaming_sessions_def jsmap_values_def)
    obtain rest where rest: "streaming_sessions srv = cur # rest"
      using getCurrentSession_hd [OF cur] by blast
    have "fst (stream_stop closeAfter' now' (snd (stream_stop closeAfter now srv))) =
               Some (Error 400 ''No active stream found'')
             \<longleftrightarrow> tl (streaming_sessions srv) = []"
      by (simp only: iff tl)
    also have "\<dots> \<longleftrightarrow> length (streaming_sessions srv) = 1"
      by (simp add: rest)
    finally show ?thesis using tl by blast
  qed
  show ?thesis
    using iff [of closeAfter now srv] unchanged after by blast
qed

lemma stopped_once_eval:
  "sessions (storage (snd (stream_stop (Some 100) 3000 two_live_server))) =
     [(''s1'', session_1\<lparr>s_status := ''stopped'', s_endTime := Some 3000\<rparr>), (''s2'', session_2)]"
  "broadcasts (snd (stream_stop (Some 100) 3000 two_live_server)) =
     [StreamStarted session_1 video_a, StreamStarted session_2 video_a, StreamStopped ''s1'']"
  "isStreaming (ffmpegService (snd (stream_stop (Some 100) 3000 two_live_server))) = False"
  "fst (stream_stop (Some 100) 3000 two_live_server) = Some (Json SuccessJson)"
proof -
  have c: "getCurrentSession (storage two_live_server) = Some session_1"
    by (simp add: getCurrentSession_def two_live_server_eval jsmap_values_def session_1_def)
  have s: "stopStream (Some 100) (ffmpegService two_live_server) =
      (Settled 100 True, onStopClose (kill_streamingProcess SIGTERM (ffmpegService two_live_server)))"
    by (simp add: two_live_server_eval stopStream_def streaming_service_def Let_def)
  have u: "snd (updateSession (s_id session_1)
              (\<lambda>s. s\<lparr>s_status := ''stopped'', s_endTime := Some 3000\<rparr>) (storage two_live_server)) =
      (storage two_live_server)\<lparr>sessions :=
        [(''s1'', session_1\<lparr>s_status := ''stopped'', s_endTime := Some 3000\<rparr>), (''s2'', session_2)]\<rparr>"
    by (simp add: updateSession_def two_live_server_eval jsmap_get_def session_1_def Let_def)
  have r: "stream_stop (Some 100) 3000 two_live_server =
      (Some (Json SuccessJson),
       two_live_server
         \<lparr>ffmpegService := onStopClose (kill_streamingProcess SIGTERM (ffmpegService two_live_server)),
          storage := (storage two_live_server)\<lparr>sessions :=
            [(''s1'', session_1\<lparr>s_status := ''stopped'', s_endTime := Some 3000\<rparr>), (''s2'', session_2)]\<rparr>,
          broadcasts := broadcasts two_live_server @ [StreamStopped (s_id session_1)]\<rparr>)"
    by (simp add: stream_stop_session [OF c] s u)
  show "sessions (storage (snd (stream_stop (Some 100) 3000 two_live_server))) =
     [(''s1'', session_1\<lparr>s_status := ''stopped'', s_endTime := Some 3000\<rparr>), (''s2'', session_2)]"
    by (simp add: r)
  show "broadcasts (snd (stream_stop (Some 100) 3000 two_live_server)) =
     [StreamStarted session_1 video_a, StreamStarted session_2 video_a, StreamStopped ''s1'']"
    by (simp add: r two_live_server_eval session_1_def)
  show "isStreaming (ffmpegService (snd (stream_stop (Some 100) 3000 two_live_server))) = False"
    by (simp add: r onStopClose_def)
  show "fst (stream_stop (Some 100) 3000 two_live_server) = Some (Json SuccessJson)"
    by (simp add: r)
qed

text \<open>After a start, an exit of the process by itself and a second start, two stops in a
  row both succeed and \<^verbatim>\<open>stream_stopped\<close> is broadcast twice.\<close>

theorem second_stop_succeeds_after_exit:
  "sessions_keyed (storage two_live_server)
   \<and> streaming_sessions two_live_server = [session_1, session_2]
   \<and> fst (stream_stop (Some 100) 3000 two_live_server) = Some (Json SuccessJson)
   \<and> streaming_sessions (snd (stream_stop (Some 100) 3000 two_live_server)) = [session_2]
   \<and> fst (stream_stop (Some 100) 4000 (snd (stream_stop (Some 100) 3000 two_live_server))) \<noteq>
       Some (Error 400 ''No active stream found'')
   \<and> fst (stream_stop (Some 100) 4000 (snd (stream_stop (Some 100) 3000 two_live_server))) =
       Some (Json SuccessJson)
   \<and> broadcasts (snd (stream_stop (Some 100) 4000 (snd (stream_stop (Some 100) 3000 two_live_server)))) =
       [StreamStarted session_1 video_a, StreamStarted session_2 video_a,
        StreamStopped ''s1'', StreamStopped ''s2'']"
proof -
  let ?once = "snd (stream_stop (Some 100) 3000 two_live_server)"
  have k: "sessions_keyed (storage two_live_server)"
    by (simp add: sessions_keyed_def two_live_server_eval session_1_def session_2_def)
  have two: "streaming_sessions two_live_server = [session_1, session_2]"
    by (simp add: streaming_sessions_def two_live_server_eval jsmap_values_def session_1_def
        session_2_def)
  note ok = stopped_once_eval(4)
  note t = stream_stop_NoActiveStream [of "Some 100" 3000 two_live_server "Some 100" 4000,
      THEN conjunct2, THEN conjunct2, THEN mp, OF conjI [OF k ok]]
  have 1: "streaming_sessions ?once = [session_2]"
    using t [THEN conjunct1] by (simp add: two)
  have 2: "fst (stream_stop (Some 100) 4000 ?once) \<noteq> Some (Error 400 ''No active stream found'')"
    using t [THEN conjunct2] by (simp add: two)
  have c: "getCurrentSession (storage ?once) = Some session_2"
    by (simp add: getCurrentSession_def stopped_once_eval jsmap_values_def session_1_def session_2_def)
  have s: "stopStream (Some 100) (ffmpegService ?once) = (Settled 0 False, ffmpegService ?once)"
    by (simp add: stopStream_def stopped_once_eval)
  have r: "stream_stop (Some 100) 4000 ?once =
      (Some (Json SuccessJson),
       ?once\<lparr>ffmpegService := ffmpegService ?once,
              storage := snd (updateSession (s_id session_2)
                  (\<lambda>s. s\<lparr>s_status := ''stopped'', s_endTime := Some 4000\<rparr>) (storage ?once)),
              broadcasts := broadcasts ?once @ [StreamStopped (s_id session_2)]\<rparr>)"
    by (simp add: stream_stop_session [OF c] s)
  have 3: "fst (stream_stop (Some 100) 4000 ?once) = Some (Json SuccessJson)"
    by (simp add: r)
  have 4: "broadcasts (snd (stream_stop (Some 100) 4000 ?once)) =
       [StreamStarted session_1 video_a, StreamStarted session_2 video_a,
        StreamStopped ''s1'', StreamStopped ''s2'']"
    by (simp add: r stopped_once_eval session_2_def)
  from k two ok 1 2 3 4 show ?thesis by (intro conjI) (simp_all only: simp_thms)
qed

section \<open>Requests served one after another, without an exit of the process\<close>

text \<open>Where the single streaming session does hold: on every sequence of start and stop
  requests in which each request has run to its response before the next one begins and
  no process ends by itself. It is a fact about \<^verbatim>\<open>run\<close>, that is, about requests served
  one after another. The routes await the launch, and a second start request that arrives
  inside the 2000 ms window of the first is not a step of \<^verbatim>\<open>run\<close>: for such requests the
  fact does not hold, since the launch does not refuse them
  (\<^verbatim>\<open>startStream_call\<close> at a service whose handle is set and whose flag is not).\<close>

lemma jsmap_set_keys: "set (map fst (jsmap_set k v m)) = insert k (set (map fst m))"
proof (induction m)
  case Nil
  then show ?case by simp
next
  case (Cons a m)
  obtain a1 a2 where a: "a = (a1, a2)" by (cases a)
  show ?case
    using Cons.IH by (cases "a1 = k") (simp_all add: a insert_commute)
qed

lemma jsmap_set_distinct: "distinct (map fst m) \<Longrightarrow> distinct (map fst (jsmap_set k v m))"
proof (induction m)
  case Nil
  then show ?case by simp
next
  case (Cons a m)
  obtain a1 a2 where a: "a = (a1, a2)" by (cases a)
  show ?case
  proof (cases "a1 = k")
    case True
    then show ?thesis using Cons.prems a by simp
  next
    case False
    then show ?thesis using Cons a jsmap_set_keys [of k v m] by simp
  qed
qed

lemma jsmap_set_keyed:
  "list_all (\<lambda>p. s_id (snd p) = fst p) m \<Longrightarrow> s_id v = k \<Longrightarrow>
   list_all (\<lambda>p. s_id (snd p) = fst p) (jsmap_set k v m)"
  by (induction m) auto

lemma sessions_keyed_set:
  "sessions_keyed st \<Longrightarrow> sessions st' = jsmap_set k v (sessions st) \<Longrightarrow> s_id v = k \<Longrightarrow>
   sessions_keyed st'"
  by (simp add: sessions_keyed_def jsmap_set_distinct jsmap_set_keyed)

lemma startStream_cases:
  "(fst (startStream opts ex evs svc) = Settled 2000 (Inr True) \<and> \<not> isStreaming svc
      \<and> isStreaming (snd (startStream opts ex evs svc))
      \<and> streamingProcess (snd (startStream opts ex evs svc)) \<noteq> None)
   \<or> ((\<exists>t e. fst (startStream opts ex evs svc) = Settled t (Inl e))
       \<and> isStreaming (snd (startStream opts ex evs svc)) = isStreaming svc
       \<and> (isStreaming svc \<longrightarrow> snd (startStream opts ex evs svc) = svc))"
proof (cases "isStreaming svc")
  case True
  then show ?thesis by (simp add: startStream_AlreadyRunning)
next
  case idle: False
  show ?thesis
  proof (cases "ex (''uploads/'' @ inputFile opts)")
    case False
    then show ?thesis using idle by (simp add: startStream_InputNotFound)
  next
    case True
    show ?thesis
    proof (cases "filter (\<lambda>te. fst te < 2000) evs = []")
      case w: True
      show ?thesis
        using startStream_confirmed [of svc ex opts evs] idle True w by simp
    next
      case w: False
      show ?thesis
        using startStream_failed [of svc ex opts evs] idle True w
        by (simp split: option.splits)
    qed
  qed
qed


lemma stopStream_cases:
  assumes "isStreaming svc" "streamingProcess svc = Some p"
  shows "(fst (stopStream closeAfter svc) = Pending
            \<and> isStreaming (snd (stopStream closeAfter svc))
            \<and> streamingProcess (snd (stopStream closeAfter svc)) \<noteq> None)
         \<or> ((\<exists>t. fst (stopStream closeAfter svc) = Settled t True)
            \<and> \<not> isStreaming (snd (stopStream closeAfter svc))
            \<and> streamingProcess (snd (stopStream closeAfter svc)) = None)"
proof (cases "cp_running p")
  case True
  show ?thesis
    using assms True
    by (cases closeAfter)
      (simp_all add: stopStream_def Let_def kill_running escalationTimer_def onStopClose_def onClose_def)
next
  case False
  show ?thesis
    using assms False
    by (cases closeAfter)
      (simp_all add: stopStream_def Let_def kill_gone escalationTimer_gone onStopClose_def onClose_def)
qed

lemma stream_start_shape:
  "(sessions (storage (snd (stream_start body env srv))) = sessions (storage srv)
      \<and> (ffmpegService (snd (stream_start body env srv)) = ffmpegService srv
          \<or> (\<exists>opts t e.
                fst (startStream opts (e_existsSync env) (e_events env) (ffmpegService srv)) =
                  Settled t (Inl e)
                \<and> ffmpegService (snd (stream_start body env srv)) =
                    snd (startStream opts (e_existsSync env) (e_events env) (ffmpegService srv)))))
   \<or> (\<exists>opts t ok session.
         fst (startStream opts (e_existsSync env) (e_events env) (ffmpegService srv)) =
           Settled t (Inr ok)
         \<and> ffmpegService (snd (stream_start body env srv)) =
             snd (startStream opts (e_existsSync env) (e_events env) (ffmpegService srv))
         \<and> sessions (storage (snd (stream_start body env srv))) =
             jsmap_set (e_sessionUid env) session (sessions (storage srv))
         \<and> s_id session = e_sessionUid env \<and> s_status session = ''streaming'')"
proof (cases "case r_videoId body of None \<Rightarrow> None | Some vid \<Rightarrow> getVideo vid (storage srv)")
  case None
  then show ?thesis by (simp add: stream_start_def)
next
  case (Some video)
  note v = Some
  show ?thesis
  proof (cases "List.find (\<lambda>c. Some (c_pageId c) = r_facebookPageId body)
                  (getFacebookCredentials (storage srv))")
    case None
    then show ?thesis using v by (simp add: stream_start_def)
  next
    case (Some cred)
    note c = Some
    show ?thesis
    proof (cases "e_liveVideo env")
      case None
      then show ?thesis using v c by (simp add: stream_start_def)
    next
      case (Some lv)
      let ?cfg = "fst (getConfiguration (e_configUid env) (e_now env) (storage srv))"
      let ?opts = "\<lparr>inputFile = v_filename video, rtmpUrl = lv_stream_url lv,
          quality = (if cfg_quality ?cfg = [] then ''1080p'' else cfg_quality ?cfg),
          bitrate = (if cfg_bitrate ?cfg = [] then ''4000'' else cfg_bitrate ?cfg)\<rparr>"
      let ?r = "startStream ?opts (e_existsSync env) (e_events env) (ffmpegService srv)"
      show ?thesis
      proof (cases "fst ?r")
        case Pending
        then show ?thesis
          using startStream_cases [of ?opts "e_existsSync env" "e_events env" "ffmpegService srv"]
          by auto
      next
        case (Settled t res)
        show ?thesis
        proof (cases res)
          case (Inl e)
          have "sessions (storage (snd (stream_start body env srv))) = sessions (storage srv)"
            "ffmpegService (snd (stream_start body env srv)) = snd ?r"
            using v c Some Settled Inl
            by (simp_all add: stream_start_def Let_def split_beta getConfiguration_sessions
                split del: if_split cong: if_cong)
          then show ?thesis using Settled Inl by blast
        next
          case (Inr ok)
          let ?session = "\<lparr>s_id = e_sessionUid env, s_status = ''streaming'',
              s_currentVideoId = r_videoId body,
              s_facebookPageId = r_facebookPageId body, s_streamTitle = r_streamTitle body,
              s_streamDescription = r_streamDescription body, s_startTime = Some (e_now env),
              s_endTime = None, s_createdAt = Some (e_now env)\<rparr>"
          have "sessions (storage (snd (stream_start body env srv))) =
               jsmap_set (e_sessionUid env) ?session (sessions (storage srv))"
            "ffmpegService (snd (stream_start body env srv)) = snd ?r"
            using v c Some Settled Inr
            by (simp_all add: stream_start_def Let_def split_beta getConfiguration_sessions
                createSession_def split del: if_split cong: if_cong)
          moreover have "s_id ?session = e_sessionUid env" "s_status ?session = ''streaming''"
            by simp_all
          ultimately show ?thesis using Settled Inr by blast
        qed
      qed
    qed
  qed
qed


lemma streaming_sessions_cong:
  "sessions (storage srv') = sessions (storage srv) \<Longrightarrow> streaming_sessions srv' = streaming_sessions srv"
  by (simp add: streaming_sessions_def)

lemma sessions_keyed_cong:
  "sessions st' = sessions st \<Longrightarrow> sessions_keyed st' = sessions_keyed st"
  by (simp add: sessions_keyed_def)

lemma stream_start_single_flight:
  assumes inv: "single_flight srv"
    and fresh: "\<not> jsmap_has (sessions (storage srv)) (e_sessionUid env)"
  shows "single_flight (snd (stream_start body env srv))"
proof -
  let ?srv' = "snd (stream_start body env srv)"
  let ?svc = "ffmpegService srv"
  from stream_start_shape [of body env srv] consider
    (same) "sessions (storage ?srv') = sessions (storage srv)" "ffmpegService ?srv' = ?svc"
  | (failed) opts t e where "sessions (storage ?srv') = sessions (storage srv)"
      "fst (startStream opts (e_existsSync env) (e_events env) ?svc) = Settled t (Inl e)"
      "ffmpegService ?srv' = snd (startStream opts (e_existsSync env) (e_events env) ?svc)"
  | (started) opts t ok session where
      "fst (startStream opts (e_existsSync env) (e_events env) ?svc) = Settled t (Inr ok)"
      "ffmpegService ?srv' = snd (startStream opts (e_existsSync env) (e_events env) ?svc)"
      "sessions (storage ?srv') = jsmap_set (e_sessionUid env) session (sessions (storage srv))"
      "s_id session = e_sessionUid env" "s_status session = ''streaming''"
    by blast
  then show ?thesis
  proof cases
    case same
    have ss: "streaming_sessions ?srv' = streaming_sessions srv"
      using same(1) by (rule streaming_sessions_cong)
    have sk: "sessions_keyed (storage ?srv') = sessions_keyed (storage srv)"
      using same(1) by (rule sessions_keyed_cong)
    show ?thesis
      using inv unfolding single_flight_def ss sk same(2) .
  next
    case failed
    have ss: "streaming_sessions ?srv' = streaming_sessions srv"
      using failed(1) by (rule streaming_sessions_cong)
    have sk: "sessions_keyed (storage ?srv') = sessions_keyed (storage srv)"
      using failed(1) by (rule sessions_keyed_cong)
    have f: "isStreaming (ffmpegService ?srv') = isStreaming ?svc"
      "isStreaming ?svc \<longrightarrow> ffmpegService ?srv' = ?svc"
      using startStream_cases [of opts "e_existsSync env" "e_events env" ?svc] failed(2,3)
      by auto
    show ?thesis
    proof (cases "isStreaming ?svc")
      case True
      then have "ffmpegService ?srv' = ?svc" using f(2) by blast
      then show ?thesis using inv unfolding single_flight_def ss sk by simp
    next
      case False
      then have "\<not> isStreaming (ffmpegService ?srv')" using f(1) by simp
      moreover have "streaming_sessions srv = []" "sessions_keyed (storage srv)"
        using inv False by (simp_all add: single_flight_def)
      ultimately show ?thesis unfolding single_flight_def ss sk by simp
    qed
  next
    case started
    have s: "\<not> isStreaming ?svc" "isStreaming (ffmpegService ?srv')"
      "streamingProcess (ffmpegService ?srv') \<noteq> None"
      using startStream_cases [of opts "e_existsSync env" "e_events env" ?svc] started(1,2)
      by auto
    then have none: "streaming_sessions srv = []"
      using inv by (simp add: single_flight_def)
    have "e_sessionUid env \<notin> fst ` set (sessions (storage srv))"
      using fresh by (simp add: jsmap_has_def)
    then have "sessions (storage ?srv') = sessions (storage srv) @ [(e_sessionUid env, session)]"
      using started(3) by (simp add: jsmap_set_fresh)
    then have "streaming_sessions ?srv' = streaming_sessions srv @ [session]"
      using started(5) by (simp add: streaming_sessions_def jsmap_values_def)
    then have one: "length (streaming_sessions ?srv') \<le> 1"
      using none by simp
    have "sessions_keyed (storage srv)" using inv by (simp add: single_flight_def)
    then have "sessions_keyed (storage ?srv')"
      using started(3,4) by (rule sessions_keyed_set)
    then show ?thesis
      using s one unfolding single_flight_def by simp
  qed
qed

lemma stream_stop_takes_first:
  assumes k: "sessions_keyed (storage srv)"
    and ok: "fst (stream_stop closeAfter now srv) = Some (Json SuccessJson)"
  shows "streaming_sessions (snd (stream_stop closeAfter now srv)) = tl (streaming_sessions srv)"
proof -
  obtain cur where cur: "getCurrentSession (storage srv) = Some cur"
    using ok by (cases "getCurrentSession (storage srv)") (simp_all add: stream_stop_no_session)
  let ?cur' = "cur\<lparr>s_status := ''stopped'', s_endTime := Some now\<rparr>"
  have "sessions (storage (snd (stream_stop closeAfter now srv))) =
      jsmap_set (s_id cur) ?cur' (sessions (storage srv))"
    using k cur ok by (rule stream_stop_success_state(2))
  moreover have "filter (\<lambda>s. s_status s = ''streaming'')
        (map snd (jsmap_set (s_id cur) ?cur' (sessions (storage srv)))) =
      tl (filter (\<lambda>s. s_status s = ''streaming'') (map snd (sessions (storage srv))))"
    using k cur
    by (intro filter_after_stop) (simp_all add: sessions_keyed_def getCurrentSession_def jsmap_values_def)
  ultimately show ?thesis
    by (simp add: streaming_sessions_def jsmap_values_def)
qed

lemma stream_stop_single_flight:
  assumes inv: "single_flight srv"
  shows "single_flight (snd (stream_stop closeAfter now srv))"
proof (cases "getCurrentSession (storage srv)")
  case None
  then show ?thesis using inv by (simp add: stream_stop_no_session)
next
  case (Some cur)
  let ?srv' = "snd (stream_stop closeAfter now srv)"
  let ?svc = "ffmpegService srv"
  obtain rest where rest: "streaming_sessions srv = cur # rest"
    using getCurrentSession_hd [OF Some] by blast
  have k: "sessions_keyed (storage srv)" using inv by (simp add: single_flight_def)
  have live: "isStreaming ?svc"
  proof (rule ccontr)
    assume "\<not> isStreaming ?svc"
    then have "streaming_sessions srv = []" using inv by (simp add: single_flight_def)
    then show False using rest by simp
  qed
  then have "streamingProcess ?svc \<noteq> None" and le: "length (streaming_sessions srv) \<le> 1"
    using inv by (simp_all add: single_flight_def)
  then obtain p where p: "streamingProcess ?svc = Some p" by blast
  have one: "rest = []" using le rest by simp
  from stopStream_cases [OF live p, of closeAfter] show ?thesis
  proof
    assume pend: "fst (stopStream closeAfter ?svc) = Pending
            \<and> isStreaming (snd (stopStream closeAfter ?svc))
            \<and> streamingProcess (snd (stopStream closeAfter ?svc)) \<noteq> None"
    then have st: "storage ?srv' = storage srv"
      and sv: "ffmpegService ?srv' = snd (stopStream closeAfter ?svc)"
      by (simp_all add: stream_stop_session [OF Some])
    have ss: "streaming_sessions ?srv' = streaming_sessions srv"
      by (simp add: streaming_sessions_def st)
    show ?thesis
      using k le pend unfolding single_flight_def ss st sv by simp
  next
    assume closed: "(\<exists>t. fst (stopStream closeAfter ?svc) = Settled t True)
            \<and> \<not> isStreaming (snd (stopStream closeAfter ?svc))
            \<and> streamingProcess (snd (stopStream closeAfter ?svc)) = None"
    then obtain t where t: "fst (stopStream closeAfter ?svc) = Settled t True" by blast
    have ok: "fst (stream_stop closeAfter now srv) = Some (Json SuccessJson)"
      by (simp add: stream_stop_session [OF Some] t)
    note st = stream_stop_success_state [OF k Some ok]
    have "streaming_sessions ?srv' = tl (streaming_sessions srv)"
      using k ok by (rule stream_stop_takes_first)
    then have none: "streaming_sessions ?srv' = []"
      using rest one by simp
    have "s_id (cur\<lparr>s_status := ''stopped'', s_endTime := Some now\<rparr>) = s_id cur" by simp
    with k st(2) have sk: "sessions_keyed (storage ?srv')"
      by (rule sessions_keyed_set)
    have "\<not> isStreaming (ffmpegService ?srv')"
      using closed by (simp add: st(4))
    then show ?thesis
      using none sk unfolding single_flight_def by simp
  qed
qed

lemma run_single_flight:
  "single_flight srv \<Longrightarrow> exit_free evs srv \<Longrightarrow> single_flight (run evs srv)"
proof (induction evs arbitrary: srv)
  case Nil
  then show ?case by (simp add: run_def)
next
  case (Cons ev evs)
  have "single_flight (step ev srv)"
  proof (cases ev)
    case (RequestStart body env)
    then show ?thesis
      using Cons.prems by (simp add: stream_start_single_flight)
  next
    case (RequestStop closeAfter now)
    then show ?thesis
      using Cons.prems by (simp add: stream_stop_single_flight)
  next
    case ProcessExit
    then show ?thesis using Cons.prems by simp
  qed
  then have "single_flight (run evs (step ev srv))"
    using Cons.prems by (intro Cons.IH) simp_all
  then show ?case by (simp add: run_def)
qed

text \<open>From a state in which the service and the store agree, for instance the example
  server, every such sequence of requests served one after another leaves at most one
  session with status \<^verbatim>\<open>streaming\<close>.\<close>

lemma at_most_one_streaming_sequential:
  assumes "single_flight srv" "exit_free evs srv"
  shows "length (streaming_sessions (run evs srv)) \<le> 1"
proof -
  have inv: "single_flight (run evs srv)"
    using assms by (rule run_single_flight)
  show ?thesis
  proof (cases "isStreaming (ffmpegService (run evs srv))")
    case True
    then show ?thesis using inv by (simp add: single_flight_def)
  next
    case False
    then have "streaming_sessions (run evs srv) = []" using inv by (simp add: single_flight_def)
    then show ?thesis by simp
  qed
qed

lemma example_server_single_flight: "single_flight example_server"
  by (simp add: single_flight_def sessions_keyed_def streaming_sessions_def jsmap_values_def
      example_server_def example_storage_def idle_service_def)

end
